theory Spec2Isabelle
  imports Main "HOL-Library.Sublist"
begin

section \<open>The request pipeline of backend/server.js\<close>

text \<open>
  \<^verbatim>\<open>server.js\<close> is the composition root of an Express application: it registers, in
  this order, six application-wide middleware stages (helmet, the rate limiter, morgan,
  cors, the JSON and the urlencoded body parsers), the static file server, eight mounted
  route groups, nine GET routes, one error-handling middleware and a catch-all 404
  handler. The embedding keeps that registration list as data (\<open>app\<close>) and runs a request
  through it with the dispatch discipline of the Express router: layers are tried in
  registration order, a layer either passes the request on, answers it, or raises an
  error, and after an error only error-handling middleware is considered.

  The handlers written in \<^verbatim>\<open>server.js\<close> itself (the page routes, the health check, the
  error handler, the 404 handler) and every constant of the file (window, maximum,
  allow-list, size limits, paths, prefixes) are translated from the source. What the
  file only configures (the packages, the file system below \<^verbatim>\<open>__dirname\<close>, the route
  modules under \<^verbatim>\<open>./routes\<close>) is either a parameter of the deployment record or a
  definition whose comment says which package behaviour it follows.
\<close>

subsection \<open>Requests and responses\<close>

type_synonym header = "string \<times> string"

text \<open>
  What the body parser for its content type makes of a body: it parses; it is refused
  before it is read, for a charset or content encoding the parser does not support (with
  the parser's message); its content does not parse (\<^verbatim>\<open>JSON.parse\<close> throws a SyntaxError
  with a message); or, for a urlencoded body, it has more parameters than the parser
  accepts.
\<close>

datatype decoding = Parsed | Unsupported string | SyntaxError string | TooManyParameters

text \<open>
  A request body by content type, with its length in bytes. \<open>NoBody\<close> is a request
  without a body, \<open>OtherBody\<close> one whose content type neither body parser handles.
\<close>

datatype req_body = NoBody | JsonBody nat decoding | UrlencodedBody nat decoding | OtherBody

text \<open>
  The Request Context. \<open>req_headers\<close> has the header names in lower case, as Node hands
  them over; \<open>req_ip\<close> is the client identity the limiter keys on; \<open>req_time\<close> is the
  reading of the wall clock (milliseconds since the epoch) while the request is handled.
\<close>

record request =
  req_method :: string
  req_path :: string
  req_headers :: "header list"
  req_body :: req_body
  req_ip :: string
  req_time :: nat

text \<open>
  JSON values of the response bodies built in \<^verbatim>\<open>server.js\<close>: string literals, and
  \<^verbatim>\<open>new Date().toISOString()\<close>, kept as the instant it renders (\<open>JIsoTime t\<close> stands for
  the ISO-8601 string of the instant \<open>t\<close> milliseconds after the epoch).
\<close>

datatype jvalue = JString string | JIsoTime nat

datatype resp_body =
    Json "(string \<times> jvalue) list"
  | Document string
  | PartialDocument string
  | RedirectNotice string
  | Text string
  | Empty

text \<open>
  \<open>resp_headers\<close> lists the headers set by helmet, by cors and by \<^verbatim>\<open>res.redirect\<close>, and
  those of the answers of the static server and of the route groups. The rate-limit
  headers of the limiter and the headers that follow from the body (its type, length
  and entity tag) are not part of the model. \<open>resp_body\<close> is the body the answering layer
  hands over; \<open>on_wire\<close> below is what is sent.
\<close>

record response =
  resp_status :: nat
  resp_headers :: "header list"
  resp_body :: resp_body

record http_error =
  err_status :: nat
  err_message :: string

datatype handler_result = Pass | Answer response | Raise http_error

text \<open>
  What \<^verbatim>\<open>res.sendFile\<close> finds at a path: a file it can read, a directory, or an error
  (no such file, no permission).
\<close>

datatype file_state = Readable | IsDirectory | Unreadable http_error

text \<open>
  What the send package makes of a request with conditional or Range headers for a file
  it can read: the whole file, 304 for a copy that is still fresh, 206 for a range, or an
  error (412 for a failed precondition, 416 for a range outside the file).
\<close>

datatype conditional = Full | NotModified | Partial | Refused http_error

text \<open>
  The deployment: everything \<^verbatim>\<open>server.js\<close> reads from outside itself.
  \<^item> \<open>node_env\<close>: \<^verbatim>\<open>process.env.NODE_ENV\<close>, \<open>None\<close> when unset;
  \<^item> \<open>helmet_headers\<close>: the headers helmet sets with \<^verbatim>\<open>contentSecurityPolicy: false\<close>;
  \<^item> \<open>static_answer\<close>: what \<^verbatim>\<open>express.static(__dirname)\<close> answers to a GET or HEAD
    request, \<open>None\<close> when no file matches its path and the request is passed on;
  \<^item> \<open>group\<close>: the router mounted under a prefix (the modules under \<^verbatim>\<open>./routes\<close>);
  \<^item> \<open>file_state\<close>: what \<^verbatim>\<open>res.sendFile\<close> finds for a document below \<^verbatim>\<open>__dirname\<close>;
  \<^item> \<open>send_conditional\<close>: the decision of the send package on the conditional and
    Range headers of a request for a document;
  \<^item> \<open>revalidates\<close>: the comparison, by the freshness test of \<^verbatim>\<open>res.send\<close>, of the
    conditional headers of a request with the entity tag computed from a body.
\<close>

record deployment =
  node_env :: "string option"
  helmet_headers :: "header list"
  static_answer :: "request \<Rightarrow> response option"
  group :: "string \<Rightarrow> request \<Rightarrow> handler_result"
  file_state :: "string \<Rightarrow> file_state"
  send_conditional :: "string \<Rightarrow> request \<Rightarrow> conditional"
  revalidates :: "request \<Rightarrow> resp_body \<Rightarrow> bool"

subsection \<open>The registration list\<close>

datatype handler = SendFile string | Redirect string | Health

datatype stage =
    Helmet
  | Limiter
  | Morgan
  | Cors
  | JsonParser
  | UrlencodedParser
  | Static
  | Mount string
  | Get string handler
  | ErrorHandler
  | NotFound

text \<open>Lines 30 to 131 of \<^verbatim>\<open>server.js\<close>, one entry per \<^verbatim>\<open>app.use\<close> or \<^verbatim>\<open>app.get\<close>.\<close>

definition app :: "stage list" where
  "app =
    [Helmet, Limiter, Morgan, Cors, JsonParser, UrlencodedParser, Static,
     Mount ''/api/auth'', Mount ''/api/orders'', Mount ''/api/products'',
     Mount ''/api/users'', Mount ''/api/admin'', Mount ''/api/apk'',
     Mount ''/api/creditcards'', Mount ''/api/sync'',
     Get ''/'' (SendFile ''index.html''),
     Get ''/start'' (Redirect ''/launcher''),
     Get ''/launcher'' (SendFile ''launcher.html''),
     Get ''/admin'' (SendFile ''admin/login.html''),
     Get ''/admin/'' (SendFile ''admin/login.html''),
     Get ''/admin/login.html'' (SendFile ''admin/login.html''),
     Get ''/admin/dashboard'' (SendFile ''admin/index.html''),
     Get ''/order-confirmation'' (SendFile ''order-confirmation.html''),
     Get ''/api/health'' Health,
     ErrorHandler, NotFound]"

definition api_prefixes :: "string list" where
  "api_prefixes =
    [''/api/auth'', ''/api/orders'', ''/api/products'', ''/api/users'', ''/api/admin'',
     ''/api/apk'', ''/api/creditcards'', ''/api/sync'']"

definition page_paths :: "string list" where
  "page_paths =
    [''/'', ''/start'', ''/launcher'', ''/admin'', ''/admin/'', ''/admin/login.html'',
     ''/admin/dashboard'', ''/order-confirmation'']"

subsection \<open>Path matching of the router\<close>

text \<open>
  Express compiles a route path with its default settings (case-insensitive routing, no
  strict routing): letters match in either case and one trailing slash is optional. A
  mount path matches a whole leading run of path segments.
\<close>

definition lower_char :: "char \<Rightarrow> char" where
  "lower_char c =
    (case map_of (zip ''ABCDEFGHIJKLMNOPQRSTUVWXYZ'' ''abcdefghijklmnopqrstuvwxyz'') c of
       Some d \<Rightarrow> d
     | None \<Rightarrow> c)"

definition lowercase :: "string \<Rightarrow> string" where
  "lowercase p = map lower_char p"

definition strip_slash :: "string \<Rightarrow> string" where
  "strip_slash p = (if p \<noteq> [] \<and> last p = CHR ''/'' then butlast p else p)"

definition route_matches :: "string \<Rightarrow> string \<Rightarrow> bool" where
  "route_matches pat p =
    (let a = lowercase (strip_slash pat); b = lowercase p
     in b = a \<or> b = a @ ''/'')"

definition mount_matches :: "string \<Rightarrow> string \<Rightarrow> bool" where
  "mount_matches pre p =
    (let a = lowercase (strip_slash pre); b = lowercase p
     in b = a \<or> take (Suc (length a)) b = a @ ''/'')"

text \<open>
  Which layers the router hands a request to: middleware registered without a path sees
  every request, a mounted group the paths under its prefix, an \<^verbatim>\<open>app.get\<close> route the GET
  and HEAD requests to its path.
\<close>

fun layer_matches :: "stage \<Rightarrow> request \<Rightarrow> bool" where
  "layer_matches (Mount pre) r = mount_matches pre (req_path r)"
| "layer_matches (Get pat h) r =
    (route_matches pat (req_path r) \<and> (req_method r = ''GET'' \<or> req_method r = ''HEAD''))"
| "layer_matches st r = True"

subsection \<open>The rate limiter\<close>

definition windowMs :: nat where
  "windowMs = 15 * 60 * 1000"

definition max_requests :: nat where
  "max_requests = 100"

text \<open>Per client identity: the count of the current window and the time the window ends.\<close>

type_synonym store = "string \<Rightarrow> (nat \<times> nat) option"

text \<open>
  Modelled from the spec: the counting of the express-rate-limit package, which is not
  among the sources of the repository. On each request the identity's window is reset
  when it has expired (count zero, a new window of \<open>windowMs\<close> from now), then the counter
  is incremented; the result is the new count and the updated store.
\<close>

definition limiter_hit :: "nat \<Rightarrow> string \<Rightarrow> store \<Rightarrow> nat \<times> store" where
  "limiter_hit now k s =
    (let (c, rt) =
       (case s k of
          None \<Rightarrow> (0, now + windowMs)
        | Some (c, rt) \<Rightarrow> if rt \<le> now then (0, now + windowMs) else (c, rt))
     in (Suc c, s(k \<mapsto> (Suc c, rt))))"

definition too_many :: "header list \<Rightarrow> response" where
  "too_many hs =
    \<lparr>resp_status = 429, resp_headers = hs,
     resp_body = Text ''Too many requests, please try again later.''\<rparr>"

subsection \<open>The CORS policy\<close>

definition allowed_origins :: "string list" where
  "allowed_origins =
    [''http://localhost:3000'', ''http://127.0.0.1:3000'', ''http://localhost:8000'',
     ''http://127.0.0.1:8000'']"

definition origin :: "request \<Rightarrow> string option" where
  "origin r = map_of (req_headers r) ''origin''"

text \<open>
  The cors package with an array for \<^verbatim>\<open>origin\<close> and \<^verbatim>\<open>credentials: true\<close>: the request's
  origin is echoed in Access-Control-Allow-Origin when it equals an entry of the array,
  and the header is left out otherwise; Vary and Access-Control-Allow-Credentials are set
  whatever the origin is.
\<close>

definition cors_headers :: "request \<Rightarrow> header list" where
  "cors_headers r =
    (case origin r of
       None \<Rightarrow> []
     | Some og \<Rightarrow>
         if og \<in> set allowed_origins then [(''Access-Control-Allow-Origin'', og)] else [])
    @ [(''Vary'', ''Origin''), (''Access-Control-Allow-Credentials'', ''true'')]"

text \<open>
  The further headers of the package's answer to an OPTIONS request: its default method
  list, and the requested headers echoed back.
\<close>

definition preflight_headers :: "request \<Rightarrow> header list" where
  "preflight_headers r =
    [(''Access-Control-Allow-Methods'', ''GET,HEAD,PUT,PATCH,POST,DELETE''),
     (''Vary'', ''Access-Control-Request-Headers'')]
    @ (case map_of (req_headers r) ''access-control-request-headers'' of
         None \<Rightarrow> []
       | Some h \<Rightarrow> if h = [] then [] else [(''Access-Control-Allow-Headers'', h)])
    @ [(''Content-Length'', ''0'')]"

subsection \<open>The body parsers\<close>

text \<open>\<^verbatim>\<open>limit: '10mb'\<close>, in bytes.\<close>

definition body_limit :: nat where
  "body_limit = 10 * 1024 * 1024"

definition too_large :: http_error where
  "too_large = \<lparr>err_status = 413, err_message = ''request entity too large''\<rparr>"

text \<open>
  The error a body parser raises on a body of its content type, if any: 415 for what it
  does not support, then 413 for a body over the limit, then 400 for content that does
  not parse and 413 for too many parameters.
\<close>

definition decode_error :: "nat \<Rightarrow> decoding \<Rightarrow> http_error option" where
  "decode_error n d =
    (case d of
       Unsupported m \<Rightarrow> Some \<lparr>err_status = 415, err_message = m\<rparr>
     | _ \<Rightarrow>
         if body_limit < n then Some too_large
         else (case d of
                 SyntaxError m \<Rightarrow> Some \<lparr>err_status = 400, err_message = m\<rparr>
               | TooManyParameters \<Rightarrow>
                   Some \<lparr>err_status = 413, err_message = ''too many parameters''\<rparr>
               | _ \<Rightarrow> None))"

text \<open>The error of the JSON parser, and of the urlencoded parser, on a request.\<close>

definition json_error :: "request \<Rightarrow> http_error option" where
  "json_error r = (case req_body r of JsonBody n d \<Rightarrow> decode_error n d | _ \<Rightarrow> None)"

definition urlencoded_error :: "request \<Rightarrow> http_error option" where
  "urlencoded_error r =
    (case req_body r of UrlencodedBody n d \<Rightarrow> decode_error n d | _ \<Rightarrow> None)"

subsection \<open>The handlers of server.js\<close>

text \<open>
  A request is conditional for \<^verbatim>\<open>res.send\<close> when it carries an If-None-Match or an
  If-Modified-Since header. \<^verbatim>\<open>res.send\<close> answers a GET or HEAD with 304 and no body
  instead of a 2xx when the request is conditional and its headers match the entity tag
  of the body.
\<close>

definition conditional_get :: "request \<Rightarrow> bool" where
  "conditional_get r =
    (map_of (req_headers r) ''if-none-match'' \<noteq> None \<or>
     map_of (req_headers r) ''if-modified-since'' \<noteq> None)"

definition is_fresh :: "deployment \<Rightarrow> request \<Rightarrow> resp_body \<Rightarrow> bool" where
  "is_fresh env r b =
    ((req_method r = ''GET'' \<or> req_method r = ''HEAD'') \<and> conditional_get r \<and>
     revalidates env r b)"

text \<open>
  A request is plain for the send package when it carries none of the headers If-Match,
  If-Unmodified-Since, If-None-Match, If-Modified-Since and Range: the file is then sent
  whole.
\<close>

definition plain :: "request \<Rightarrow> bool" where
  "plain r =
    (map_of (req_headers r) ''if-match'' = None \<and>
     map_of (req_headers r) ''if-unmodified-since'' = None \<and>
     map_of (req_headers r) ''if-none-match'' = None \<and>
     map_of (req_headers r) ''if-modified-since'' = None \<and>
     map_of (req_headers r) ''range'' = None)"

text \<open>The object of lines 108 to 113, with the clock reading of the call.\<close>

definition health_body :: "nat \<Rightarrow> resp_body" where
  "health_body t =
    Json
      [(''status'', JString ''OK''),
       (''message'', JString ''ShoppingDmart Backend is running''),
       (''timestamp'', JIsoTime t),
       (''version'', JString ''1.0.0'')]"

text \<open>
  \<^item> \<^verbatim>\<open>res.sendFile\<close> hands the file to the send package. An error of the package (the
    file cannot be read, a precondition fails, a range is outside the file) is passed
    on to the error handling; for a directory the request is passed on to the next
    layer; otherwise the answer is 200 with the document, 304 without a body, or 206
    with a part of it.
  \<^item> \<^verbatim>\<open>res.redirect\<close> answers 302 with a Location header and a short notice, whose
    form depends on the Accept header, so that it also sets Vary to Accept.
  \<^item> The health check answers with \<^verbatim>\<open>res.json\<close>: status 200 and the object, or 304 to
    a conditional request that matches.
\<close>

fun run_handler :: "deployment \<Rightarrow> handler \<Rightarrow> request \<Rightarrow> header list \<Rightarrow> handler_result" where
  "run_handler env (SendFile f) r hs =
    (case file_state env f of
       Unreadable e \<Rightarrow> Raise e
     | IsDirectory \<Rightarrow> Pass
     | Readable \<Rightarrow>
         (case (if plain r then Full else send_conditional env f r) of
            Full \<Rightarrow> Answer \<lparr>resp_status = 200, resp_headers = hs, resp_body = Document f\<rparr>
          | NotModified \<Rightarrow> Answer \<lparr>resp_status = 304, resp_headers = hs, resp_body = Empty\<rparr>
          | Partial \<Rightarrow>
              Answer \<lparr>resp_status = 206, resp_headers = hs, resp_body = PartialDocument f\<rparr>
          | Refused e \<Rightarrow> Raise e))"
| "run_handler env (Redirect target) r hs =
    Answer \<lparr>resp_status = 302,
            resp_headers = hs @ [(''Location'', target), (''Vary'', ''Accept'')],
            resp_body = RedirectNotice target\<rparr>"
| "run_handler env Health r hs =
    (if is_fresh env r (health_body (req_time r))
     then Answer \<lparr>resp_status = 304, resp_headers = hs, resp_body = Empty\<rparr>
     else Answer \<lparr>resp_status = 200, resp_headers = hs,
                  resp_body = health_body (req_time r)\<rparr>)"

text \<open>Lines 117 to 123: the error-handling middleware.\<close>

definition error_handler :: "deployment \<Rightarrow> header list \<Rightarrow> http_error \<Rightarrow> response" where
  "error_handler env hs e =
    \<lparr>resp_status = 500, resp_headers = hs,
     resp_body = Json
       [(''error'', JString ''Something went wrong!''),
        (''message'',
         JString (if node_env env = Some ''development'' then err_message e
                  else ''Internal server error''))]\<rparr>"

text \<open>Lines 126 to 131: the 404 handler.\<close>

definition not_found :: "request \<Rightarrow> header list \<Rightarrow> response" where
  "not_found r hs =
    \<lparr>resp_status = 404, resp_headers = hs,
     resp_body = Json
       [(''error'', JString ''Route not found''),
        (''message'', JString (''Cannot '' @ req_method r @ '' '' @ req_path r))]\<rparr>"

subsection \<open>Running a stage\<close>

datatype outcome = Next "header list" | Respond response | Throw http_error

definition with_headers :: "header list \<Rightarrow> response \<Rightarrow> response" where
  "with_headers hs resp = resp\<lparr>resp_headers := hs @ resp_headers resp\<rparr>"

fun of_result :: "header list \<Rightarrow> handler_result \<Rightarrow> outcome" where
  "of_result hs Pass = Next hs"
| "of_result hs (Answer resp) = Respond resp"
| "of_result hs (Raise e) = Throw e"

text \<open>
  One layer applied to a request, given the limiter's store and the response headers set
  so far. Only the limiter changes the store.
  \<^item> helmet adds its headers; morgan only logs;
  \<^item> the limiter counts the request and answers 429 once the count exceeds the maximum;
  \<^item> cors adds its headers and answers an OPTIONS request itself, with status 204
    (the package's defaults \<^verbatim>\<open>preflightContinue: false\<close>, \<^verbatim>\<open>optionsSuccessStatus: 204\<close>);
  \<^item> a body parser raises its error for a body of its content type that it cannot
    decode, and passes every other request on;
  \<^item> the static server answers GET and HEAD requests for which a file matches;
  \<^item> a mounted group and a route run their handler.
\<close>

fun invoke :: "deployment \<Rightarrow> stage \<Rightarrow> request \<Rightarrow> store \<Rightarrow> header list \<Rightarrow> outcome \<times> store" where
  "invoke env Helmet r s hs = (Next (hs @ helmet_headers env), s)"
| "invoke env Limiter r s hs =
    (let (c, s') = limiter_hit (req_time r) (req_ip r) s
     in (if max_requests < c then Respond (too_many hs) else Next hs, s'))"
| "invoke env Morgan r s hs = (Next hs, s)"
| "invoke env Cors r s hs =
    (if req_method r = ''OPTIONS''
     then (Respond \<lparr>resp_status = 204,
                     resp_headers = hs @ cors_headers r @ preflight_headers r,
                     resp_body = Empty\<rparr>, s)
     else (Next (hs @ cors_headers r), s))"
| "invoke env JsonParser r s hs =
    (case json_error r of None \<Rightarrow> (Next hs, s) | Some e \<Rightarrow> (Throw e, s))"
| "invoke env UrlencodedParser r s hs =
    (case urlencoded_error r of None \<Rightarrow> (Next hs, s) | Some e \<Rightarrow> (Throw e, s))"
| "invoke env Static r s hs =
    (if req_method r = ''GET'' \<or> req_method r = ''HEAD''
     then (case static_answer env r of
             None \<Rightarrow> (Next hs, s)
           | Some resp \<Rightarrow> (Respond (with_headers hs resp), s))
     else (Next hs, s))"
| "invoke env (Mount pre) r s hs =
    (case group env pre r of
       Pass \<Rightarrow> (Next hs, s)
     | Answer resp \<Rightarrow> (Respond (with_headers hs resp), s)
     | Raise e \<Rightarrow> (Throw e, s))"
| "invoke env (Get pat h) r s hs = (of_result hs (run_handler env h r hs), s)"
| "invoke env ErrorHandler r s hs = (Next hs, s)"
| "invoke env NotFound r s hs = (Respond (not_found r hs), s)"

subsection \<open>Dispatch\<close>

text \<open>
  What Express answers when the registration list is exhausted: 404 without an error,
  the error's status with one. With \<open>app\<close> neither is reached, since the 404 handler
  answers every request that gets to it.
\<close>

definition final_handler :: "request \<Rightarrow> header list \<Rightarrow> http_error option \<Rightarrow> response" where
  "final_handler r hs eo =
    (case eo of
       None \<Rightarrow> \<lparr>resp_status = 404, resp_headers = hs,
                 resp_body = Text (''Cannot '' @ req_method r @ '' '' @ req_path r)\<rparr>
     | Some e \<Rightarrow> \<lparr>resp_status = err_status e, resp_headers = hs,
                   resp_body = Text (err_message e)\<rparr>)"

fun visit :: "stage \<Rightarrow> stage list \<times> response \<times> store \<Rightarrow> stage list \<times> response \<times> store" where
  "visit st (tr, resp, s) = (st # tr, resp, s)"

text \<open>
  The router's loop over the remaining layers. The last argument is the pending error:
  with one, every layer but the error-handling middleware is skipped; without one, the
  error-handling middleware and the layers that do not match the request are skipped.
  The result is the list of the layers that were run, the response, and the store.
\<close>

fun dispatch ::
  "deployment \<Rightarrow> stage list \<Rightarrow> request \<Rightarrow> store \<Rightarrow> header list \<Rightarrow> http_error option
    \<Rightarrow> stage list \<times> response \<times> store" where
  "dispatch env [] r s hs eo = ([], final_handler r hs eo, s)"
| "dispatch env (st # sts) r s hs (Some e) =
    (if st = ErrorHandler then ([ErrorHandler], error_handler env hs e, s)
     else dispatch env sts r s hs (Some e))"
| "dispatch env (st # sts) r s hs None =
    (if st = ErrorHandler \<or> \<not> layer_matches st r then dispatch env sts r s hs None
     else (case invoke env st r s hs of
             (Next hs', s') \<Rightarrow> visit st (dispatch env sts r s' hs' None)
           | (Respond resp, s') \<Rightarrow> ([st], resp, s')
           | (Throw e, s') \<Rightarrow> visit st (dispatch env sts r s' hs (Some e))))"

definition handle :: "deployment \<Rightarrow> store \<Rightarrow> request \<Rightarrow> stage list \<times> response \<times> store" where
  "handle env s r = dispatch env app r s [] None"

text \<open>
  What goes on the wire. Every answer of the file ends in \<^verbatim>\<open>res.send\<close>, \<^verbatim>\<open>res.redirect\<close>
  or the send package, which give a HEAD request the status and the headers without the
  body.
\<close>

definition on_wire :: "request \<Rightarrow> response \<Rightarrow> response" where
  "on_wire r resp = (if req_method r = ''HEAD'' then resp\<lparr>resp_body := Empty\<rparr> else resp)"

definition answer :: "deployment \<Rightarrow> store \<Rightarrow> request \<Rightarrow> response" where
  "answer env s r = on_wire r (fst (snd (handle env s r)))"



subsection \<open>The parts of the registration list, and the conditions of the stages\<close>

definition pipeline_stages :: "stage list" where
  "pipeline_stages = [Helmet, Limiter, Morgan, Cors, JsonParser, UrlencodedParser]"

definition mounts :: "stage list" where
  "mounts = map Mount api_prefixes"

definition get_routes :: "stage list" where
  "get_routes =
    [Get ''/'' (SendFile ''index.html''),
     Get ''/start'' (Redirect ''/launcher''),
     Get ''/launcher'' (SendFile ''launcher.html''),
     Get ''/admin'' (SendFile ''admin/login.html''),
     Get ''/admin/'' (SendFile ''admin/login.html''),
     Get ''/admin/login.html'' (SendFile ''admin/login.html''),
     Get ''/admin/dashboard'' (SendFile ''admin/index.html''),
     Get ''/order-confirmation'' (SendFile ''order-confirmation.html''),
     Get ''/api/health'' Health]"

definition forwarded :: "store \<Rightarrow> request \<Rightarrow> bool" where
  "forwarded s r = (fst (limiter_hit (req_time r) (req_ip r) s) \<le> max_requests)"

definition counted :: "store \<Rightarrow> request \<Rightarrow> store" where
  "counted s r = snd (limiter_hit (req_time r) (req_ip r) s)"

definition decodes :: "request \<Rightarrow> bool" where
  "decodes r = (json_error r = None \<and> urlencoded_error r = None)"

definition reaches_routing :: "store \<Rightarrow> request \<Rightarrow> bool" where
  "reaches_routing s r =
    (forwarded s r \<and> req_method r \<noteq> ''OPTIONS'' \<and> decodes r)"

definition early_headers :: "deployment \<Rightarrow> request \<Rightarrow> header list" where
  "early_headers env r = helmet_headers env @ cors_headers r"

text \<open>
  A deployment for concrete runs: no static file, route groups that pass every request
  on, every document present and sent whole, no request that revalidates,
  \<^verbatim>\<open>NODE_ENV\<close> unset, no helmet header.
\<close>

definition bare :: deployment where
  "bare =
    \<lparr>node_env = None, helmet_headers = [], static_answer = (\<lambda>p. None),
     group = (\<lambda>pre r. Pass), file_state = (\<lambda>f. Readable),
     send_conditional = (\<lambda>f r. Full), revalidates = (\<lambda>r b. False)\<rparr>"

definition request_of :: "string \<Rightarrow> string \<Rightarrow> nat \<Rightarrow> request" where
  "request_of m p t =
    \<lparr>req_method = m, req_path = p, req_headers = [], req_body = NoBody,
     req_ip = ''10.0.0.1'', req_time = t\<rparr>"

text \<open>The layers that match a request against files and routes, and the 404 handler.\<close>

fun routing_layer :: "stage \<Rightarrow> bool" where
  "routing_layer Static = True"
| "routing_layer (Mount pre) = True"
| "routing_layer (Get pat h) = True"
| "routing_layer NotFound = True"
| "routing_layer st = False"




section \<open>Properties of the dispatch\<close>

declare dispatch.simps [simp del]

lemma app_split: "app = pipeline_stages @ Static # mounts @ get_routes @ [ErrorHandler, NotFound]"
  by (simp add: app_def pipeline_stages_def mounts_def get_routes_def api_prefixes_def)

lemma fst_visit: "fst (visit st x) = st # fst x"
  by (cases x) simp

lemma snd_visit: "snd (visit st x) = snd x"
  by (cases x) simp

lemma visit_eq: "visit st x = (st # fst x, snd x)"
  by (cases x) simp

subsection \<open>One equation per kind of layer\<close>

lemma d_helmet:
  "dispatch env (Helmet # sts) r s hs None =
     visit Helmet (dispatch env sts r s (hs @ helmet_headers env) None)"
  by (simp add: dispatch.simps)

lemma d_limiter:
  "dispatch env (Limiter # sts) r s hs None =
     (if forwarded s r then visit Limiter (dispatch env sts r (counted s r) hs None)
      else ([Limiter], too_many hs, counted s r))"
  by (simp add: dispatch.simps forwarded_def counted_def split: prod.splits)

lemma d_morgan:
  "dispatch env (Morgan # sts) r s hs None = visit Morgan (dispatch env sts r s hs None)"
  by (simp add: dispatch.simps)

lemma d_cors:
  "dispatch env (Cors # sts) r s hs None =
     (if req_method r = ''OPTIONS''
      then ([Cors], \<lparr>resp_status = 204,
                      resp_headers = hs @ cors_headers r @ preflight_headers r,
                      resp_body = Empty\<rparr>, s)
      else visit Cors (dispatch env sts r s (hs @ cors_headers r) None))"
  by (simp add: dispatch.simps)

lemma d_json:
  "dispatch env (JsonParser # sts) r s hs None =
     visit JsonParser (dispatch env sts r s hs (json_error r))"
  by (simp add: dispatch.simps split: option.splits)

lemma d_urlencoded:
  "dispatch env (UrlencodedParser # sts) r s hs None =
     visit UrlencodedParser (dispatch env sts r s hs (urlencoded_error r))"
  by (simp add: dispatch.simps split: option.splits)

lemma d_static:
  "dispatch env (Static # sts) r s hs None =
     (case (if req_method r = ''GET'' \<or> req_method r = ''HEAD''
            then static_answer env r else None) of
        None \<Rightarrow> visit Static (dispatch env sts r s hs None)
      | Some resp \<Rightarrow> ([Static], with_headers hs resp, s))"
  by (simp add: dispatch.simps split: option.splits)

lemma d_mount:
  "dispatch env (Mount pre # sts) r s hs None =
     (if mount_matches pre (req_path r)
      then (case group env pre r of
              Pass \<Rightarrow> visit (Mount pre) (dispatch env sts r s hs None)
            | Answer resp \<Rightarrow> ([Mount pre], with_headers hs resp, s)
            | Raise e \<Rightarrow> visit (Mount pre) (dispatch env sts r s hs (Some e)))
      else dispatch env sts r s hs None)"
  by (simp add: dispatch.simps split: handler_result.splits)

lemma d_get:
  "dispatch env (Get pat h # sts) r s hs None =
     (if route_matches pat (req_path r) \<and> (req_method r = ''GET'' \<or> req_method r = ''HEAD'')
      then (case run_handler env h r hs of
              Pass \<Rightarrow> visit (Get pat h) (dispatch env sts r s hs None)
            | Answer resp \<Rightarrow> ([Get pat h], resp, s)
            | Raise e \<Rightarrow> visit (Get pat h) (dispatch env sts r s hs (Some e)))
      else dispatch env sts r s hs None)"
  by (simp add: dispatch.simps split: handler_result.splits)

lemma d_error_handler:
  "dispatch env (ErrorHandler # sts) r s hs None = dispatch env sts r s hs None"
  by (simp add: dispatch.simps)

lemma d_not_found:
  "dispatch env (NotFound # sts) r s hs None = ([NotFound], not_found r hs, s)"
  by (simp add: dispatch.simps)

lemmas d_layer =
  d_helmet d_limiter d_morgan d_cors d_json d_urlencoded d_static d_mount d_get
  d_error_handler d_not_found

lemma dispatch_error:
  "ErrorHandler \<in> set sts \<Longrightarrow>
   dispatch env sts r s hs (Some e) = ([ErrorHandler], error_handler env hs e, s)"
  by (induction sts) (auto simp: dispatch.simps)

lemma dispatch_skip:
  "\<forall>st \<in> set sts. st = ErrorHandler \<or> \<not> layer_matches st r \<Longrightarrow>
   dispatch env (sts @ rest) r s hs None = dispatch env rest r s hs None"
  by (induction sts) (auto simp: dispatch.simps)


subsection \<open>The stages before routing\<close>

lemma pipeline_rejected:
  "\<not> forwarded s r \<Longrightarrow>
   dispatch env (pipeline_stages @ rest) r s [] None =
     ([Helmet, Limiter], too_many (helmet_headers env), counted s r)"
  by (simp add: pipeline_stages_def d_layer)

lemma pipeline_forwarded:
  "forwarded s r \<Longrightarrow>
   dispatch env (pipeline_stages @ rest) r s [] None =
     visit Helmet (visit Limiter (visit Morgan
       (dispatch env (Cors # JsonParser # UrlencodedParser # rest) r (counted s r)
          (helmet_headers env) None)))"
  by (simp add: pipeline_stages_def d_helmet d_limiter d_morgan)

lemma pipeline_preflight:
  "forwarded s r \<Longrightarrow> req_method r = ''OPTIONS'' \<Longrightarrow>
   dispatch env (pipeline_stages @ rest) r s [] None =
     ([Helmet, Limiter, Morgan, Cors],
      \<lparr>resp_status = 204,
       resp_headers = helmet_headers env @ cors_headers r @ preflight_headers r,
       resp_body = Empty\<rparr>, counted s r)"
  by (simp add: pipeline_forwarded d_cors)

lemma pipeline_routed:
  "reaches_routing s r \<Longrightarrow>
   dispatch env (pipeline_stages @ rest) r s [] None =
     (pipeline_stages @ fst (dispatch env rest r (counted s r) (early_headers env r) None),
      snd (dispatch env rest r (counted s r) (early_headers env r) None))"
  by (simp add: reaches_routing_def decodes_def pipeline_stages_def d_layer visit_eq
      early_headers_def)

lemma handle_routed:
  "reaches_routing s r \<Longrightarrow>
   handle env s r =
     (pipeline_stages @
        fst (dispatch env (Static # mounts @ get_routes @ [ErrorHandler, NotFound]) r
               (counted s r) (early_headers env r) None),
      snd (dispatch env (Static # mounts @ get_routes @ [ErrorHandler, NotFound]) r
             (counted s r) (early_headers env r) None))"
  unfolding handle_def app_split by (rule pipeline_routed)




subsection \<open>Evaluating the path matching\<close>

lemma lower_char_Char:
  "lower_char (Char b0 b1 b2 b3 b4 b5 b6 b7) =
     (if \<not> b7 \<and> b6 \<and> \<not> b5 \<and> (b0 \<or> b1 \<or> b2 \<or> b3 \<or> b4) \<and> \<not> (b4 \<and> b3 \<and> (b2 \<or> (b1 \<and> b0)))
      then Char b0 b1 b2 b3 b4 True b6 b7
      else Char b0 b1 b2 b3 b4 b5 b6 b7)"
proof (cases "\<not> b7 \<and> b6 \<and> \<not> b5")
  case True
  then show ?thesis
    by (cases b0; cases b1; cases b2; cases b3; cases b4; simp add: lower_char_def)
next
  case False
  then show ?thesis
    by (cases b5; cases b6; cases b7; simp add: lower_char_def)
qed

lemma lowercase_simps:
  "lowercase [] = []"
  "lowercase (c # cs) = lower_char c # lowercase cs"
  by (simp_all add: lowercase_def)

lemmas match_eval =
  route_matches_def mount_matches_def strip_slash_def lowercase_simps lower_char_Char

lemmas stage_eval =
  forwarded_def counted_def limiter_hit_def max_requests_def windowMs_def
  cors_headers_def origin_def preflight_headers_def allowed_origins_def with_headers_def
  too_many_def not_found_def error_handler_def body_limit_def too_large_def
  early_headers_def decodes_def json_error_def urlencoded_error_def decode_error_def
  is_fresh_def conditional_get_def plain_def health_body_def on_wire_def answer_def

lemmas run_eval = handle_def app_def d_layer dispatch_error bare_def request_of_def

subsection \<open>Routing\<close>

lemma pipeline_json_error:
  assumes "forwarded s r" and "req_method r \<noteq> ''OPTIONS''"
    and "json_error r = Some e"
    and "ErrorHandler \<in> set rest"
  shows "dispatch env (pipeline_stages @ rest) r s [] None =
           ([Helmet, Limiter, Morgan, Cors, JsonParser, ErrorHandler],
            error_handler env (early_headers env r) e, counted s r)"
  using assms
  by (simp add: pipeline_stages_def d_helmet d_limiter d_morgan d_cors d_json
      dispatch_error early_headers_def)

lemma mounts_skipped:
  "\<forall>pre \<in> set api_prefixes. \<not> mount_matches pre (req_path r) \<Longrightarrow>
   dispatch env (mounts @ rest) r s hs None = dispatch env rest r s hs None"
  by (rule dispatch_skip) (auto simp: mounts_def)

lemma page_not_api:
  "p \<in> set page_paths \<Longrightarrow> pre \<in> set api_prefixes \<Longrightarrow> \<not> mount_matches pre p"
  by (simp add: page_paths_def api_prefixes_def) (elim disjE; simp add: match_eval)

lemma static_passes:
  "(req_method r = ''GET'' \<or> req_method r = ''HEAD'' \<longrightarrow> static_answer env r = None) \<Longrightarrow>
   dispatch env (Static # rest) r s hs None = visit Static (dispatch env rest r s hs None)"
  by (auto simp: d_static)

lemma routes_skipped:
  "\<forall>st \<in> set get_routes. \<not> layer_matches st r \<Longrightarrow>
   dispatch env (get_routes @ rest) r s hs None = dispatch env rest r s hs None"
  by (rule dispatch_skip) simp

lemma unmatched:
  assumes "reaches_routing s r"
    and "req_method r = ''GET'' \<or> req_method r = ''HEAD'' \<longrightarrow> static_answer env r = None"
    and "\<forall>pre \<in> set api_prefixes. \<not> mount_matches pre (req_path r)"
    and "\<forall>st \<in> set get_routes. \<not> layer_matches st r"
  shows "handle env s r =
           (pipeline_stages @ [Static, NotFound], not_found r (early_headers env r), counted s r)"
  using assms(1)
  by (simp add: handle_routed static_passes [OF assms(2)] mounts_skipped [OF assms(3)]
      routes_skipped [OF assms(4)] d_error_handler d_not_found)

lemma routed_to_page:
  assumes "reaches_routing s r"
    and "req_method r = ''GET'' \<or> req_method r = ''HEAD'' \<longrightarrow> static_answer env r = None"
    and "req_path r \<in> set page_paths"
  shows "handle env s r =
           (pipeline_stages @ Static #
              fst (dispatch env (get_routes @ [ErrorHandler, NotFound]) r (counted s r)
                     (early_headers env r) None),
            snd (dispatch env (get_routes @ [ErrorHandler, NotFound]) r (counted s r)
                   (early_headers env r) None))"
proof -
  have "\<forall>pre \<in> set api_prefixes. \<not> mount_matches pre (req_path r)"
    using assms(3) page_not_api by blast
  then show ?thesis
    using assms(1)
    by (simp add: handle_routed static_passes [OF assms(2)] mounts_skipped fst_visit snd_visit)
qed

subsection \<open>Order of the layers, and the headers set on the way\<close>

lemma resp_visit: "fst (snd (visit st x)) = fst (snd x)"
  by (cases x) simp

lemma dispatch_in_order: "subseq (fst (dispatch env sts r s hs eo)) sts"
proof (induction sts arbitrary: s hs eo)
  case Nil
  then show ?case by (simp add: dispatch.simps)
next
  case (Cons st sts)
  have later: "subseq (fst (dispatch env sts r s' hs' eo')) (st # sts)" for s' hs' eo'
    using Cons.IH [of s' hs' eo'] by (rule list_emb_Cons)
  have both: "subseq (fst (visit st (dispatch env sts r s' hs' eo'))) (st # sts)" for s' hs' eo'
    using Cons.IH [of s' hs' eo'] by (simp add: fst_visit)
  show ?case
  proof (cases eo)
    case (Some e)
    then show ?thesis using later by (simp add: dispatch.simps)
  next
    case None
    then show ?thesis
      using later both
      by (cases st)
         (simp_all add: d_layer
            split: option.splits handler_result.splits)
  qed
qed

lemma handler_keeps_headers:
  "run_handler env h r hs = Answer resp \<Longrightarrow> set hs \<subseteq> set (resp_headers resp)"
  by (cases h) (auto split: file_state.splits conditional.splits if_splits)

lemma dispatch_keeps_headers:
  "set hs \<subseteq> set (resp_headers (fst (snd (dispatch env sts r s hs eo))))"
proof (induction sts arbitrary: s hs eo)
  case Nil
  then show ?case by (simp add: dispatch.simps final_handler_def split: option.splits)
next
  case (Cons st sts)
  have more: "set hs \<subseteq> set (resp_headers (fst (snd (dispatch env sts r s' (hs @ hs') eo'))))"
    for s' hs' eo'
    using Cons.IH [of "hs @ hs'" s' eo'] by simp
  show ?case
  proof (cases eo)
    case (Some e)
    then show ?thesis using Cons.IH by (simp add: dispatch.simps error_handler_def)
  next
    case None
    then show ?thesis
      using Cons.IH more handler_keeps_headers
      by (cases st)
         (auto simp: d_layer resp_visit not_found_def with_headers_def too_many_def
            split: option.splits handler_result.splits)
  qed
qed

subsection \<open>How far a request gets\<close>

lemma handle_rejected:
  "\<not> forwarded s r \<Longrightarrow>
   handle env s r = ([Helmet, Limiter], too_many (helmet_headers env), counted s r)"
  unfolding handle_def app_split by (rule pipeline_rejected)

lemma handle_forwarded:
  "forwarded s r \<Longrightarrow>
   handle env s r =
     visit Helmet (visit Limiter (visit Morgan
       (dispatch env
          (Cors # JsonParser # UrlencodedParser # Static # mounts @ get_routes @
             [ErrorHandler, NotFound])
          r (counted s r) (helmet_headers env) None)))"
  unfolding handle_def app_split by (rule pipeline_forwarded)

lemma handle_preflight:
  "forwarded s r \<Longrightarrow> req_method r = ''OPTIONS'' \<Longrightarrow>
   handle env s r =
     ([Helmet, Limiter, Morgan, Cors],
      \<lparr>resp_status = 204,
       resp_headers = helmet_headers env @ cors_headers r @ preflight_headers r,
       resp_body = Empty\<rparr>, counted s r)"
  unfolding handle_def app_split by (rule pipeline_preflight)

lemma handle_undecodable:
  assumes "forwarded s r" and "req_method r \<noteq> ''OPTIONS''" and "\<not> decodes r"
  shows "fst (handle env s r) = [Helmet, Limiter, Morgan, Cors, JsonParser, ErrorHandler] \<or>
         fst (handle env s r) =
           [Helmet, Limiter, Morgan, Cors, JsonParser, UrlencodedParser, ErrorHandler]"
  using assms
  by (cases "json_error r"; cases "urlencoded_error r")
     (auto simp: decodes_def handle_forwarded d_cors d_json d_urlencoded dispatch_error)

lemma handle_undecodable_response:
  assumes "forwarded s r" and "req_method r \<noteq> ''OPTIONS''" and "\<not> decodes r"
  shows "\<exists>e. fst (snd (handle env s r)) = error_handler env (early_headers env r) e"
  using assms
  by (cases "json_error r"; cases "urlencoded_error r")
     (auto simp: decodes_def handle_forwarded d_cors d_json d_urlencoded dispatch_error
        early_headers_def)

lemma handle_decoding:
  assumes "forwarded s r" and "req_method r \<noteq> ''OPTIONS''"
  shows "take 5 (fst (handle env s r)) = [Helmet, Limiter, Morgan, Cors, JsonParser]"
  using assms by (simp add: handle_forwarded d_cors d_json fst_visit)

lemma handle_static_first:
  assumes "reaches_routing s r"
  shows "take 7 (fst (handle env s r)) = pipeline_stages @ [Static]"
  using assms
  by (auto simp: handle_routed d_static pipeline_stages_def fst_visit split: option.splits)

lemma handle_static_answer:
  assumes "reaches_routing s r" and "req_method r = ''GET'' \<or> req_method r = ''HEAD''"
    and "static_answer env r = Some resp"
  shows "handle env s r =
           (pipeline_stages @ [Static], with_headers (early_headers env r) resp, counted s r)"
  using assms by (auto simp: handle_routed d_static)

lemma trace_start: "take 2 (fst (handle env s r)) = [Helmet, Limiter]"
  by (cases "forwarded s r") (simp_all add: handle_rejected handle_forwarded fst_visit)

lemma trace_logged:
  "forwarded s r \<Longrightarrow> take 4 (fst (handle env s r)) = [Helmet, Limiter, Morgan, Cors]"
  by (simp add: handle_forwarded d_cors fst_visit)

lemma routing_reached:
  "(\<exists>st \<in> set (fst (handle env s r)). routing_layer st) \<longleftrightarrow> reaches_routing s r"
proof
  assume "reaches_routing s r"
  then have "take 7 (fst (handle env s r)) = pipeline_stages @ [Static]"
    by (rule handle_static_first)
  then have "Static \<in> set (take 7 (fst (handle env s r)))" by simp
  then have "Static \<in> set (fst (handle env s r))" by (rule in_set_takeD)
  then show "\<exists>st \<in> set (fst (handle env s r)). routing_layer st" by force
next
  assume ex: "\<exists>st \<in> set (fst (handle env s r)). routing_layer st"
  show "reaches_routing s r"
  proof (rule ccontr)
    assume no: "\<not> reaches_routing s r"
    consider "\<not> forwarded s r" | "forwarded s r" "req_method r = ''OPTIONS''"
      | "forwarded s r" "req_method r \<noteq> ''OPTIONS''" "\<not> decodes r"
      using no by (auto simp: reaches_routing_def)
    then show False
    proof cases
      case 1
      with ex show False by (simp add: handle_rejected)
    next
      case 2
      with ex show False by (simp add: handle_preflight)
    next
      case 3
      from handle_undecodable [OF 3, of env] ex show False by auto
    qed
  qed
qed

subsection \<open>The limiter's store\<close>








subsection \<open>Mounted prefixes and routes do not overlap\<close>

lemma key_of_mount:
  assumes "b = a \<or> take (Suc (length a)) b = a @ ''/''" and "7 \<le> length a"
  shows "take 7 b = take 7 a"
proof -
  from assms(1) show ?thesis
  proof
    assume "b = a"
    then show ?thesis by simp
  next
    assume t: "take (Suc (length a)) b = a @ ''/''"
    have "take 7 b = take 7 (take (Suc (length a)) b)"
      using assms(2) by (simp add: min_def)
    also have "\<dots> = take 7 (a @ ''/'')" by (simp only: t)
    also have "\<dots> = take 7 a" using assms(2) by simp
    finally show ?thesis .
  qed
qed

lemma norm_prefix:
  "pre \<in> set api_prefixes \<Longrightarrow> lowercase (strip_slash pre) = pre \<and> 7 \<le> length pre"
  by (simp add: api_prefixes_def)
     (elim disjE; simp add: strip_slash_def lowercase_simps lower_char_Char)

lemma mount_key:
  assumes "pre \<in> set api_prefixes" and "mount_matches pre p"
  shows "take 7 (lowercase p) = take 7 pre"
  using assms(2) norm_prefix [OF assms(1)]
  by (intro key_of_mount) (simp_all add: mount_matches_def Let_def)

lemma one_mount:
  assumes "pre \<in> set api_prefixes" and "pre' \<in> set api_prefixes"
    and "mount_matches pre p" and "mount_matches pre' p"
  shows "pre' = pre"
proof -
  have "take 7 pre' = take 7 pre"
    using mount_key [OF assms(1,3)] mount_key [OF assms(2,4)] by simp
  with assms(1,2) show ?thesis
    by (simp add: api_prefixes_def) (elim disjE; simp)
qed

lemma norm_route:
  "Get pat h \<in> set get_routes \<Longrightarrow>
   lowercase (strip_slash pat) \<in>
     set [Nil, ''/start'', ''/launcher'', ''/admin'', ''/admin/login.html'',
          ''/admin/dashboard'', ''/order-confirmation'', ''/api/health'']"
  by (simp add: get_routes_def)
     (elim disjE conjE; simp add: strip_slash_def lowercase_simps lower_char_Char)

lemma route_key:
  assumes "st \<in> set get_routes" and "layer_matches st r"
  shows "take 7 (lowercase (req_path r)) \<in>
           set [Nil, ''/'', ''/start'', ''/start/'', ''/launch'', ''/admin'', ''/admin/'',
                ''/order-'', ''/api/he'']"
proof -
  from assms(1) obtain pat h where st: "st = Get pat h"
    by (auto simp: get_routes_def)
  define a where "a = lowercase (strip_slash pat)"
  define b where "b = lowercase (req_path r)"
  from assms(2) st have m: "b = a \<or> b = a @ ''/''"
    by (simp add: route_matches_def Let_def a_def b_def)
  from norm_route assms(1) st have
    "a \<in> set [Nil, ''/start'', ''/launcher'', ''/admin'', ''/admin/login.html'',
          ''/admin/dashboard'', ''/order-confirmation'', ''/api/health'']"
    unfolding a_def by blast
  then have "take 7 a \<in> set [Nil, ''/start'', ''/launch'', ''/admin'', ''/admin/'',
                ''/order-'', ''/api/he'']
             \<and> take 7 (a @ ''/'') \<in> set [''/'', ''/start/'', ''/launch'', ''/admin/'',
                ''/order-'', ''/api/he'']"
    by simp (elim disjE; simp)
  with m show ?thesis unfolding b_def [symmetric] by auto
qed

lemma no_route_under_mount:
  assumes "pre \<in> set api_prefixes" and "mount_matches pre (req_path r)"
  shows "\<forall>st \<in> set get_routes. \<not> layer_matches st r"
proof
  fix st
  assume st: "st \<in> set get_routes"
  show "\<not> layer_matches st r"
  proof
    assume "layer_matches st r"
    from route_key [OF st this] mount_key [OF assms] have
      "take 7 pre \<in> set [Nil, ''/'', ''/start'', ''/start/'', ''/launch'', ''/admin'',
                ''/admin/'', ''/order-'', ''/api/he'']" by simp
    with assms(1) show False
      by (simp add: api_prefixes_def) (elim disjE; simp)
  qed
qed

subsection \<open>A mounted group or a route that answers, and a body parser that raises\<close>

lemma distinct_prefixes: "distinct api_prefixes"
  by (simp add: api_prefixes_def)

lemma handle_mounted:
  assumes rr: "reaches_routing s r"
    and st: "req_method r = ''GET'' \<or> req_method r = ''HEAD'' \<longrightarrow> static_answer env r = None"
    and pre: "pre \<in> set api_prefixes" and m: "mount_matches pre (req_path r)"
  shows "handle env s r =
           (case group env pre r of
              Answer resp \<Rightarrow>
                (pipeline_stages @ [Static, Mount pre],
                 with_headers (early_headers env r) resp, counted s r)
            | Raise e \<Rightarrow>
                (pipeline_stages @ [Static, Mount pre, ErrorHandler],
                 error_handler env (early_headers env r) e, counted s r)
            | Pass \<Rightarrow>
                (pipeline_stages @ [Static, Mount pre, NotFound],
                 not_found r (early_headers env r), counted s r))"
proof -
  from pre obtain before after where split: "api_prefixes = before @ pre # after"
    by (auto dest: split_list)
  have "distinct (before @ pre # after)" using distinct_prefixes split by simp
  then have out: "pre \<notin> set before" "pre \<notin> set after" by auto
  have others: "\<not> mount_matches q (req_path r)" if "q \<in> set before \<union> set after" for q
  proof
    assume "mount_matches q (req_path r)"
    moreover from that have "q \<in> set api_prefixes" by (auto simp: split)
    ultimately have "q = pre" using one_mount [OF pre _ m] by blast
    with that out show False by auto
  qed
  have b: "\<forall>st \<in> set (map Mount before). st = ErrorHandler \<or> \<not> layer_matches st r"
    using others by auto
  have a: "\<forall>st \<in> set (map Mount after @ get_routes). st = ErrorHandler \<or> \<not> layer_matches st r"
    using others no_route_under_mount [OF pre m] by auto
  have eh: "ErrorHandler \<in> set (map Mount after @ get_routes @ [ErrorHandler, NotFound])"
    by simp
  have skip_a: "dispatch env (map Mount after @ get_routes @ [ErrorHandler, NotFound]) r s' hs' None =
                dispatch env [ErrorHandler, NotFound] r s' hs' None" for s' hs'
    using dispatch_skip [OF a, of env "[ErrorHandler, NotFound]" s' hs'] by simp
  have list: "Static # mounts @ get_routes @ [ErrorHandler, NotFound] =
              Static # map Mount before @
                Mount pre # (map Mount after @ get_routes) @ [ErrorHandler, NotFound]"
    by (simp add: mounts_def split)
  have "dispatch env (Static # mounts @ get_routes @ [ErrorHandler, NotFound]) r (counted s r)
          (early_headers env r) None =
        visit Static
          (case group env pre r of
             Pass \<Rightarrow> visit (Mount pre) ([NotFound], not_found r (early_headers env r), counted s r)
           | Answer resp \<Rightarrow> ([Mount pre], with_headers (early_headers env r) resp, counted s r)
           | Raise e \<Rightarrow>
               visit (Mount pre)
                 ([ErrorHandler], error_handler env (early_headers env r) e, counted s r))"
    unfolding list
    by (simp add: static_passes [OF st] dispatch_skip [OF b] d_mount m skip_a
        d_error_handler d_not_found dispatch_error [OF eh]
        split: handler_result.splits)
  then show ?thesis
    by (simp add: handle_routed [OF rr] split: handler_result.splits)
qed

lemma handle_route:
  assumes rr: "reaches_routing s r"
    and st: "req_method r = ''GET'' \<or> req_method r = ''HEAD'' \<longrightarrow> static_answer env r = None"
    and mt: "\<forall>pre \<in> set api_prefixes. \<not> mount_matches pre (req_path r)"
    and split: "get_routes = before @ Get pat h # after"
    and first: "\<forall>st \<in> set before. \<not> layer_matches st r"
    and m: "layer_matches (Get pat h) r"
  shows "(run_handler env h r (early_headers env r) = Answer resp \<longrightarrow>
            handle env s r = (pipeline_stages @ [Static, Get pat h], resp, counted s r))
       \<and> (run_handler env h r (early_headers env r) = Raise e \<longrightarrow>
            handle env s r =
              (pipeline_stages @ [Static, Get pat h, ErrorHandler],
               error_handler env (early_headers env r) e, counted s r))"
proof -
  have b: "\<forall>st \<in> set before. st = ErrorHandler \<or> \<not> layer_matches st r"
    using first by auto
  have eh: "ErrorHandler \<in> set (after @ [ErrorHandler, NotFound])" by simp
  have list: "get_routes @ [ErrorHandler, NotFound] =
              before @ Get pat h # after @ [ErrorHandler, NotFound]"
    by (simp add: split)
  from m have m': "route_matches pat (req_path r) \<and> (req_method r = ''GET'' \<or> req_method r = ''HEAD'')"
    by simp
  have "dispatch env (Static # mounts @ get_routes @ [ErrorHandler, NotFound]) r (counted s r)
          (early_headers env r) None =
        visit Static
          (case run_handler env h r (early_headers env r) of
             Pass \<Rightarrow>
               visit (Get pat h)
                 (dispatch env (after @ [ErrorHandler, NotFound]) r (counted s r)
                    (early_headers env r) None)
           | Answer resp \<Rightarrow> ([Get pat h], resp, counted s r)
           | Raise e \<Rightarrow>
               visit (Get pat h)
                 ([ErrorHandler], error_handler env (early_headers env r) e, counted s r))"
    unfolding static_passes [OF st] mounts_skipped [OF mt] list dispatch_skip [OF b]
    by (simp add: d_get m' dispatch_error [OF eh] split: handler_result.splits)
  then show ?thesis
    by (simp add: handle_routed [OF rr])
qed

lemma handle_json_error:
  assumes "forwarded s r" and "req_method r \<noteq> ''OPTIONS''" and "json_error r = Some e"
  shows "handle env s r =
           ([Helmet, Limiter, Morgan, Cors, JsonParser, ErrorHandler],
            error_handler env (early_headers env r) e, counted s r)"
proof -
  have eh: "ErrorHandler \<in> set (Static # mounts @ get_routes @ [ErrorHandler, NotFound])"
    by simp
  show ?thesis
    unfolding handle_def app_split by (rule pipeline_json_error [OF assms eh])
qed

lemma handle_urlencoded_error:
  assumes "forwarded s r" and "req_method r \<noteq> ''OPTIONS''"
    and "json_error r = None" and "urlencoded_error r = Some e"
  shows "handle env s r =
           ([Helmet, Limiter, Morgan, Cors, JsonParser, UrlencodedParser, ErrorHandler],
            error_handler env (early_headers env r) e, counted s r)"
  using assms
  by (simp add: handle_forwarded d_cors d_json d_urlencoded dispatch_error early_headers_def)

subsection \<open>Where a response header comes from\<close>

lemma handler_headers_from:
  assumes "run_handler env h r hs = Answer resp" and "(k, v) \<in> set (resp_headers resp)"
  shows "(k, v) \<in> set hs \<or> k = ''Location'' \<or> k = ''Vary''"
  using assms
  by (cases h) (auto split: file_state.splits conditional.splits if_splits)

lemma dispatch_headers_from:
  assumes "(k, v) \<in> set (resp_headers (fst (snd (dispatch env sts r s hs eo))))"
  shows "(k, v) \<in> set hs \<or> (k, v) \<in> set (helmet_headers env) \<or>
         (k, v) \<in> set (cors_headers r) \<or> (k, v) \<in> set (preflight_headers r) \<or>
         k = ''Location'' \<or> k = ''Vary'' \<or>
         (\<exists>resp. static_answer env r = Some resp \<and> (k, v) \<in> set (resp_headers resp)) \<or>
         (\<exists>pre resp. group env pre r = Answer resp \<and> (k, v) \<in> set (resp_headers resp))"
  using assms
proof (induction sts arbitrary: s hs eo)
  case Nil
  then show ?case by (simp add: dispatch.simps final_handler_def split: option.splits)
next
  case (Cons st sts)
  show ?case
  proof (cases eo)
    case (Some e)
    with Cons show ?thesis
      by (cases "st = ErrorHandler") (auto simp: dispatch.simps error_handler_def)
  next
    case None
    note IH = Cons.IH
    show ?thesis
    proof (cases st)
      case Helmet
      with None Cons.prems IH [of s "hs @ helmet_headers env" None] show ?thesis
        by (auto simp: d_helmet resp_visit)
    next
      case Limiter
      with None Cons.prems IH [of "counted s r" hs None] show ?thesis
        by (auto simp: d_limiter resp_visit too_many_def split: if_splits)
    next
      case Morgan
      with None Cons.prems IH [of s hs None] show ?thesis
        by (auto simp: d_morgan resp_visit)
    next
      case Cors
      with None Cons.prems IH [of s "hs @ cors_headers r" None] show ?thesis
        by (auto simp: d_cors resp_visit split: if_splits)
    next
      case JsonParser
      with None Cons.prems IH [of s hs "json_error r"] show ?thesis
        by (auto simp: d_json resp_visit)
    next
      case UrlencodedParser
      with None Cons.prems IH [of s hs "urlencoded_error r"] show ?thesis
        by (auto simp: d_urlencoded resp_visit)
    next
      case Static
      with None Cons.prems IH [of s hs None] show ?thesis
        by (auto simp: d_static resp_visit with_headers_def split: option.splits if_splits)
    next
      case (Mount pre)
      show ?thesis
      proof (cases "group env pre r")
        case Pass
        with Mount None Cons.prems IH [of s hs None] show ?thesis
          by (auto simp: d_mount resp_visit split: if_splits)
      next
        case (Answer resp)
        with Mount None Cons.prems IH [of s hs None] show ?thesis
          by (auto simp: d_mount resp_visit with_headers_def split: if_splits)
      next
        case (Raise e)
        with Mount None Cons.prems IH [of s hs None] IH [of s hs "Some e"] show ?thesis
          by (auto simp: d_mount resp_visit split: if_splits)
      qed
    next
      case (Get pat h)
      show ?thesis
      proof (cases "run_handler env h r hs")
        case Pass
        with Get None Cons.prems IH [of s hs None] show ?thesis
          by (auto simp: d_get resp_visit split: if_splits)
      next
        case (Answer resp)
        with Get None Cons.prems IH [of s hs None] handler_headers_from [OF Answer]
        show ?thesis
          by (auto simp: d_get resp_visit split: if_splits)
      next
        case (Raise e)
        with Get None Cons.prems IH [of s hs None] IH [of s hs "Some e"] show ?thesis
          by (auto simp: d_get resp_visit split: if_splits)
      qed
    next
      case ErrorHandler
      with None Cons.prems IH [of s hs None] show ?thesis
        by (auto simp: d_error_handler)
    next
      case NotFound
      with None Cons.prems show ?thesis
        by (auto simp: d_not_found not_found_def)
    qed
  qed
qed

subsection \<open>The routes of the claims\<close>


lemma start_once:
  assumes "reaches_routing s r" and "static_answer env r = None"
    and "req_method r = ''GET''" and "req_path r = ''/start''"
  shows "handle env s r =
           ([Helmet, Limiter, Morgan, Cors, JsonParser, UrlencodedParser, Static,
             Get ''/start'' (Redirect ''/launcher'')],
            \<lparr>resp_status = 302,
             resp_headers =
               helmet_headers env @ cors_headers r @
               [(''Location'', ''/launcher''), (''Vary'', ''Accept'')],
             resp_body = RedirectNotice ''/launcher''\<rparr>,
            counted s r)"
proof -
  have st: "req_method r = ''GET'' \<or> req_method r = ''HEAD'' \<longrightarrow> static_answer env r = None"
    using assms by simp
  have pg: "req_path r \<in> set page_paths" using assms by (simp add: page_paths_def)
  show ?thesis
    unfolding routed_to_page [OF assms(1) st pg]
    using assms(3,4)
    by (simp add: get_routes_def d_get match_eval early_headers_def pipeline_stages_def)
qed

lemma dashboard_once:
  assumes "reaches_routing s r" and "static_answer env r = None"
    and "req_method r = ''GET''" and "req_path r = ''/admin/dashboard''"
  shows "handle env s r =
           (case run_handler env (SendFile ''admin/index.html'') r (early_headers env r) of
              Answer resp \<Rightarrow>
                ([Helmet, Limiter, Morgan, Cors, JsonParser, UrlencodedParser, Static,
                  Get ''/admin/dashboard'' (SendFile ''admin/index.html'')],
                 resp, counted s r)
            | Raise e \<Rightarrow>
                ([Helmet, Limiter, Morgan, Cors, JsonParser, UrlencodedParser, Static,
                  Get ''/admin/dashboard'' (SendFile ''admin/index.html''), ErrorHandler],
                 error_handler env (early_headers env r) e, counted s r)
            | Pass \<Rightarrow>
                ([Helmet, Limiter, Morgan, Cors, JsonParser, UrlencodedParser, Static,
                  Get ''/admin/dashboard'' (SendFile ''admin/index.html''), NotFound],
                 not_found r (early_headers env r), counted s r))"
proof -
  have st: "req_method r = ''GET'' \<or> req_method r = ''HEAD'' \<longrightarrow> static_answer env r = None"
    using assms by simp
  have pg: "req_path r \<in> set page_paths" using assms by (simp add: page_paths_def)
  show ?thesis
    unfolding routed_to_page [OF assms(1) st pg]
    using assms(3,4)
    by (simp add: get_routes_def d_get d_error_handler d_not_found dispatch_error match_eval
        pipeline_stages_def del: run_handler.simps split: handler_result.splits)
qed

lemma sendfile_status:
  "run_handler env (SendFile f) r hs = Answer resp \<Longrightarrow> resp_status resp \<in> {200, 206, 304}"
  by (auto split: file_state.splits conditional.splits if_splits)

lemma stopped_early:
  assumes "\<not> reaches_routing s r" and "req_method r \<noteq> ''OPTIONS''"
  shows "fst (snd (handle env s r)) = too_many (helmet_headers env) \<or>
         (\<exists>e. fst (snd (handle env s r)) = error_handler env (early_headers env r) e)"
proof (cases "forwarded s r")
  case False
  then show ?thesis by (simp add: handle_rejected)
next
  case True
  with assms have "\<not> decodes r" by (simp add: reaches_routing_def)
  from handle_undecodable_response [OF True assms(2) this] show ?thesis by blast
qed

section \<open>The claims\<close>

subsection \<open>C1: the rate limit\<close>



subsection \<open>C2: the 404 handler\<close>

text \<open>
  C2, as amended. For every method other than OPTIONS and every path that matches no
  static asset, no mounted API prefix, no page route and not the health-check route
  \<open>/api/health\<close>, a request that the limiter passes on and whose body decodes is answered
  by the 404 handler. What is sent has status 404 and the body exactly
  \<open>{error: "Route not found", message: "Cannot <METHOD> <path>"}\<close>; to a HEAD request
  the status and the headers are sent without the body.
\<close>

theorem unmatched_not_found:
  assumes "forwarded s r" and "decodes r"
    and "req_method r \<noteq> ''OPTIONS''"
    and "req_method r = ''GET'' \<or> req_method r = ''HEAD'' \<longrightarrow> static_answer env r = None"
    and "\<forall>pre \<in> set api_prefixes. \<not> mount_matches pre (req_path r)"
    and "\<forall>p \<in> set page_paths. \<not> route_matches p (req_path r)"
    and "\<not> route_matches ''/api/health'' (req_path r)"
  shows "fst (handle env s r) =
           [Helmet, Limiter, Morgan, Cors, JsonParser, UrlencodedParser, Static, NotFound]
       \<and> answer env s r =
           \<lparr>resp_status = 404, resp_headers = helmet_headers env @ cors_headers r,
            resp_body =
              (if req_method r = ''HEAD'' then Empty
               else Json
                 [(''error'', JString ''Route not found''),
                  (''message'', JString (''Cannot '' @ req_method r @ '' '' @ req_path r))])\<rparr>"
proof -
  have rr: "reaches_routing s r" using assms by (simp add: reaches_routing_def)
  have gt: "\<forall>st \<in> set get_routes. \<not> layer_matches st r"
    using assms(6,7) by (simp add: get_routes_def page_paths_def)
  show ?thesis
    unfolding answer_def unmatched [OF rr assms(4) assms(5) gt]
    by (simp add: not_found_def early_headers_def pipeline_stages_def on_wire_def)
qed

text \<open>The theorem at \<open>DELETE /nowhere\<close> and at \<open>HEAD /nowhere\<close>.\<close>

theorem unmatched_not_found_witness:
  "answer bare Map.empty (request_of ''DELETE'' ''/nowhere'' 5) =
     \<lparr>resp_status = 404,
      resp_headers = [(''Vary'', ''Origin''), (''Access-Control-Allow-Credentials'', ''true'')],
      resp_body = Json
        [(''error'', JString ''Route not found''),
         (''message'', JString ''Cannot DELETE /nowhere'')]\<rparr>
   \<and> answer bare Map.empty (request_of ''HEAD'' ''/nowhere'' 5) =
     \<lparr>resp_status = 404,
      resp_headers = [(''Vary'', ''Origin''), (''Access-Control-Allow-Credentials'', ''true'')],
      resp_body = Empty\<rparr>"
proof -
  have f: "forwarded Map.empty (request_of m ''/nowhere'' 5)" for m
    by (simp add: stage_eval request_of_def)
  have d: "decodes (request_of m ''/nowhere'' 5)" for m
    by (simp add: stage_eval request_of_def)
  have m1: "req_method (request_of ''DELETE'' ''/nowhere'' 5) \<noteq> ''OPTIONS''"
    by (simp add: request_of_def)
  have m2: "req_method (request_of ''HEAD'' ''/nowhere'' 5) \<noteq> ''OPTIONS''"
    by (simp add: request_of_def)
  have st: "req_method (request_of m ''/nowhere'' 5) = ''GET'' \<or>
            req_method (request_of m ''/nowhere'' 5) = ''HEAD'' \<longrightarrow>
            static_answer bare (request_of m ''/nowhere'' 5) = None" for m
    by (simp add: bare_def)
  have mt: "\<forall>pre \<in> set api_prefixes. \<not> mount_matches pre (req_path (request_of m ''/nowhere'' 5))"
    for m
    by (simp add: request_of_def api_prefixes_def match_eval)
  have pg: "\<forall>p \<in> set page_paths. \<not> route_matches p (req_path (request_of m ''/nowhere'' 5))"
    for m
    by (simp add: request_of_def page_paths_def match_eval)
  have hc: "\<not> route_matches ''/api/health'' (req_path (request_of m ''/nowhere'' 5))" for m
    by (simp add: request_of_def match_eval)
  show ?thesis
    using unmatched_not_found [where env = bare, OF f d m1 st mt pg hc]
      unmatched_not_found [where env = bare, OF f d m2 st mt pg hc]
    by (simp add: stage_eval request_of_def bare_def)
qed

text \<open>
  C2 as stated fails at \<open>GET /api/health\<close>: the path is no static asset, lies under no
  mounted prefix and is none of the page routes (no such layer runs), and the answer is
  the health check's 200, not the 404.
\<close>

theorem unmatched_health_counterexample:
  "handle bare Map.empty (request_of ''GET'' ''/api/health'' 7) =
     ([Helmet, Limiter, Morgan, Cors, JsonParser, UrlencodedParser, Static,
       Get ''/api/health'' Health],
      \<lparr>resp_status = 200,
       resp_headers = [(''Vary'', ''Origin''), (''Access-Control-Allow-Credentials'', ''true'')],
       resp_body = Json
         [(''status'', JString ''OK''),
          (''message'', JString ''ShoppingDmart Backend is running''),
          (''timestamp'', JIsoTime 7),
          (''version'', JString ''1.0.0'')]\<rparr>,
      Map.empty(''10.0.0.1'' \<mapsto> (1, 900007)))"
  by (simp add: run_eval stage_eval match_eval)

subsection \<open>C3: malformed JSON\<close>




subsection \<open>C4: the error handler\<close>




subsection \<open>C5: the order of the stages\<close>

text \<open>
  C5, as amended. The layers that run for a request run in registration order, and every
  request passes the security headers and the rate limiter.
  \<^item> A request over the limit is answered by the limiter, and no later layer runs.
  \<^item> A request the limiter passes on goes through the access logger and the CORS stage.
    An OPTIONS request is answered there, with status 204.
  \<^item> Any other request goes on to the JSON parser and then to the urlencoded parser.
    When one of them raises an error, the error handler answers, and no layer in
    between runs.
  \<^item> Files and routes are matched only for a request that has passed all of these, and
    the static server is tried first: when it answers, no group and no route is
    consulted.
  \<^item> When the static server passes the request on and its path lies under a mounted
    prefix, the group of that prefix is the next layer to run. Its answer is the
    response; when it raises, the error handler answers; when it passes the request on,
    the 404 handler answers.
  \<^item> When the path lies under no mounted prefix, the first GET route that matches is the
    next layer to run. The answer of its handler is the response; when the handler
    raises, the error handler answers.
  \<^item> When no mounted group and no route matches, the 404 handler answers.
\<close>

theorem pipeline_order:
  "subseq (fst (handle env s r)) app
   \<and> take 2 (fst (handle env s r)) = [Helmet, Limiter]
   \<and> (\<not> forwarded s r \<longrightarrow>
        handle env s r = ([Helmet, Limiter], too_many (helmet_headers env), counted s r))
   \<and> (forwarded s r \<longrightarrow> take 4 (fst (handle env s r)) = [Helmet, Limiter, Morgan, Cors])
   \<and> (forwarded s r \<and> req_method r \<noteq> ''OPTIONS'' \<longrightarrow>
        take 5 (fst (handle env s r)) = [Helmet, Limiter, Morgan, Cors, JsonParser])
   \<and> (forwarded s r \<and> req_method r = ''OPTIONS'' \<longrightarrow>
        handle env s r =
          ([Helmet, Limiter, Morgan, Cors],
           \<lparr>resp_status = 204,
            resp_headers = helmet_headers env @ cors_headers r @ preflight_headers r,
            resp_body = Empty\<rparr>,
           counted s r))
   \<and> (forwarded s r \<and> req_method r \<noteq> ''OPTIONS'' \<and> json_error r = Some e \<longrightarrow>
        handle env s r =
          ([Helmet, Limiter, Morgan, Cors, JsonParser, ErrorHandler],
           error_handler env (early_headers env r) e, counted s r))
   \<and> (forwarded s r \<and> req_method r \<noteq> ''OPTIONS'' \<and> json_error r = None \<and>
        urlencoded_error r = Some e \<longrightarrow>
        handle env s r =
          ([Helmet, Limiter, Morgan, Cors, JsonParser, UrlencodedParser, ErrorHandler],
           error_handler env (early_headers env r) e, counted s r))
   \<and> ((\<exists>st \<in> set (fst (handle env s r)). routing_layer st) \<longleftrightarrow> reaches_routing s r)
   \<and> (reaches_routing s r \<longrightarrow>
        take 7 (fst (handle env s r)) =
          [Helmet, Limiter, Morgan, Cors, JsonParser, UrlencodedParser, Static])
   \<and> (reaches_routing s r \<and> (req_method r = ''GET'' \<or> req_method r = ''HEAD'') \<and>
        static_answer env r = Some resp \<longrightarrow>
        handle env s r =
          ([Helmet, Limiter, Morgan, Cors, JsonParser, UrlencodedParser, Static],
           with_headers (early_headers env r) resp, counted s r))
   \<and> (reaches_routing s r \<and>
        (req_method r = ''GET'' \<or> req_method r = ''HEAD'' \<longrightarrow> static_answer env r = None) \<and>
        pre \<in> set api_prefixes \<and> mount_matches pre (req_path r) \<longrightarrow>
        handle env s r =
          (case group env pre r of
             Answer resp \<Rightarrow>
               ([Helmet, Limiter, Morgan, Cors, JsonParser, UrlencodedParser, Static,
                 Mount pre],
                with_headers (early_headers env r) resp, counted s r)
           | Raise e \<Rightarrow>
               ([Helmet, Limiter, Morgan, Cors, JsonParser, UrlencodedParser, Static,
                 Mount pre, ErrorHandler],
                error_handler env (early_headers env r) e, counted s r)
           | Pass \<Rightarrow>
               ([Helmet, Limiter, Morgan, Cors, JsonParser, UrlencodedParser, Static,
                 Mount pre, NotFound],
                not_found r (early_headers env r), counted s r)))
   \<and> (reaches_routing s r \<and>
        (req_method r = ''GET'' \<or> req_method r = ''HEAD'' \<longrightarrow> static_answer env r = None) \<and>
        (\<forall>q \<in> set api_prefixes. \<not> mount_matches q (req_path r)) \<and>
        get_routes = before @ Get pat h # after \<and>
        (\<forall>st \<in> set before. \<not> layer_matches st r) \<and> layer_matches (Get pat h) r \<longrightarrow>
        (run_handler env h r (early_headers env r) = Answer resp \<longrightarrow>
           handle env s r =
             ([Helmet, Limiter, Morgan, Cors, JsonParser, UrlencodedParser, Static,
               Get pat h],
              resp, counted s r)) \<and>
        (run_handler env h r (early_headers env r) = Raise e \<longrightarrow>
           handle env s r =
             ([Helmet, Limiter, Morgan, Cors, JsonParser, UrlencodedParser, Static,
               Get pat h, ErrorHandler],
              error_handler env (early_headers env r) e, counted s r)))
   \<and> (reaches_routing s r \<and>
        (req_method r = ''GET'' \<or> req_method r = ''HEAD'' \<longrightarrow> static_answer env r = None) \<and>
        (\<forall>st \<in> set (mounts @ get_routes). \<not> layer_matches st r) \<longrightarrow>
        handle env s r =
          ([Helmet, Limiter, Morgan, Cors, JsonParser, UrlencodedParser, Static, NotFound],
           not_found r (early_headers env r), counted s r))"
proof -
  have order: "subseq (fst (handle env s r)) app"
    unfolding handle_def by (rule dispatch_in_order)
  have rejected: "\<not> forwarded s r \<longrightarrow>
        handle env s r = ([Helmet, Limiter], too_many (helmet_headers env), counted s r)"
    by (simp add: handle_rejected)
  have preflight: "forwarded s r \<and> req_method r = ''OPTIONS'' \<longrightarrow>
        handle env s r =
          ([Helmet, Limiter, Morgan, Cors],
           \<lparr>resp_status = 204,
            resp_headers = helmet_headers env @ cors_headers r @ preflight_headers r,
            resp_body = Empty\<rparr>,
           counted s r)"
    by (simp add: handle_preflight)
  have logged: "forwarded s r \<longrightarrow>
        take 4 (fst (handle env s r)) = [Helmet, Limiter, Morgan, Cors]"
    using trace_logged by blast
  have decoding: "forwarded s r \<and> req_method r \<noteq> ''OPTIONS'' \<longrightarrow>
        take 5 (fst (handle env s r)) = [Helmet, Limiter, Morgan, Cors, JsonParser]"
    using handle_decoding by blast
  have json: "forwarded s r \<and> req_method r \<noteq> ''OPTIONS'' \<and> json_error r = Some e \<longrightarrow>
        handle env s r =
          ([Helmet, Limiter, Morgan, Cors, JsonParser, ErrorHandler],
           error_handler env (early_headers env r) e, counted s r)"
    by (simp add: handle_json_error)
  have urlencoded: "forwarded s r \<and> req_method r \<noteq> ''OPTIONS'' \<and> json_error r = None \<and>
        urlencoded_error r = Some e \<longrightarrow>
        handle env s r =
          ([Helmet, Limiter, Morgan, Cors, JsonParser, UrlencodedParser, ErrorHandler],
           error_handler env (early_headers env r) e, counted s r)"
    by (simp add: handle_urlencoded_error)
  have static_first: "reaches_routing s r \<longrightarrow>
        take 7 (fst (handle env s r)) =
          [Helmet, Limiter, Morgan, Cors, JsonParser, UrlencodedParser, Static]"
    using handle_static_first [of s r env] by (simp add: pipeline_stages_def)
  have static_wins: "reaches_routing s r \<and> (req_method r = ''GET'' \<or> req_method r = ''HEAD'') \<and>
        static_answer env r = Some resp \<longrightarrow>
        handle env s r =
          ([Helmet, Limiter, Morgan, Cors, JsonParser, UrlencodedParser, Static],
           with_headers (early_headers env r) resp, counted s r)"
    using handle_static_answer [of s r env resp] by (simp add: pipeline_stages_def)
  have mounted: "reaches_routing s r \<and>
        (req_method r = ''GET'' \<or> req_method r = ''HEAD'' \<longrightarrow> static_answer env r = None) \<and>
        pre \<in> set api_prefixes \<and> mount_matches pre (req_path r) \<longrightarrow>
        handle env s r =
          (case group env pre r of
             Answer resp \<Rightarrow>
               ([Helmet, Limiter, Morgan, Cors, JsonParser, UrlencodedParser, Static,
                 Mount pre],
                with_headers (early_headers env r) resp, counted s r)
           | Raise e \<Rightarrow>
               ([Helmet, Limiter, Morgan, Cors, JsonParser, UrlencodedParser, Static,
                 Mount pre, ErrorHandler],
                error_handler env (early_headers env r) e, counted s r)
           | Pass \<Rightarrow>
               ([Helmet, Limiter, Morgan, Cors, JsonParser, UrlencodedParser, Static,
                 Mount pre, NotFound],
                not_found r (early_headers env r), counted s r))"
    using handle_mounted [of s r env pre]
    by (cases "group env pre r") (simp_all add: pipeline_stages_def)
  have routed: "reaches_routing s r \<and>
        (req_method r = ''GET'' \<or> req_method r = ''HEAD'' \<longrightarrow> static_answer env r = None) \<and>
        (\<forall>q \<in> set api_prefixes. \<not> mount_matches q (req_path r)) \<and>
        get_routes = before @ Get pat h # after \<and>
        (\<forall>st \<in> set before. \<not> layer_matches st r) \<and> layer_matches (Get pat h) r \<longrightarrow>
        (run_handler env h r (early_headers env r) = Answer resp \<longrightarrow>
           handle env s r =
             ([Helmet, Limiter, Morgan, Cors, JsonParser, UrlencodedParser, Static,
               Get pat h],
              resp, counted s r)) \<and>
        (run_handler env h r (early_headers env r) = Raise e \<longrightarrow>
           handle env s r =
             ([Helmet, Limiter, Morgan, Cors, JsonParser, UrlencodedParser, Static,
               Get pat h, ErrorHandler],
              error_handler env (early_headers env r) e, counted s r))"
    using handle_route [of s r env before pat h after resp e]
    by (simp add: pipeline_stages_def)
  have fallback: "reaches_routing s r \<and>
        (req_method r = ''GET'' \<or> req_method r = ''HEAD'' \<longrightarrow> static_answer env r = None) \<and>
        (\<forall>st \<in> set (mounts @ get_routes). \<not> layer_matches st r) \<longrightarrow>
        handle env s r =
          ([Helmet, Limiter, Morgan, Cors, JsonParser, UrlencodedParser, Static, NotFound],
           not_found r (early_headers env r), counted s r)"
  proof (intro impI)
    assume a: "reaches_routing s r \<and>
        (req_method r = ''GET'' \<or> req_method r = ''HEAD'' \<longrightarrow> static_answer env r = None) \<and>
        (\<forall>st \<in> set (mounts @ get_routes). \<not> layer_matches st r)"
    then have m: "\<forall>pre \<in> set api_prefixes. \<not> mount_matches pre (req_path r)"
      by (force simp: mounts_def)
    from a have g: "\<forall>st \<in> set get_routes. \<not> layer_matches st r" by simp
    from a unmatched [OF _ _ m g, of s env]
    show "handle env s r =
          ([Helmet, Limiter, Morgan, Cors, JsonParser, UrlencodedParser, Static, NotFound],
           not_found r (early_headers env r), counted s r)"
      by (simp add: pipeline_stages_def)
  qed
  show ?thesis
    by (intro conjI order trace_start rejected logged decoding preflight json
        urlencoded routing_reached static_first static_wins mounted routed fallback)
qed

text \<open>
  The theorem at ten requests: one that nothing matches, one that the static server
  answers, one whose JSON body does not parse, one with too many urlencoded parameters,
  one that a mounted group answers, one on which a mounted group raises, one to a page
  whose document cannot be read, one to a page that is served, the 101st request of a
  window, and an OPTIONS request.
\<close>

theorem pipeline_order_witness:
  "handle bare Map.empty (request_of ''DELETE'' ''/nowhere'' 5) =
     ([Helmet, Limiter, Morgan, Cors, JsonParser, UrlencodedParser, Static, NotFound],
      not_found (request_of ''DELETE'' ''/nowhere'' 5)
        (early_headers bare (request_of ''DELETE'' ''/nowhere'' 5)),
      counted Map.empty (request_of ''DELETE'' ''/nowhere'' 5))
   \<and> handle
        (bare\<lparr>static_answer := (\<lambda>q. if req_path q = ''/logo.png''
            then Some \<lparr>resp_status = 200, resp_headers = [], resp_body = Document ''logo.png''\<rparr>
            else None)\<rparr>)
        Map.empty (request_of ''GET'' ''/logo.png'' 5) =
     ([Helmet, Limiter, Morgan, Cors, JsonParser, UrlencodedParser, Static],
      \<lparr>resp_status = 200,
       resp_headers = [(''Vary'', ''Origin''), (''Access-Control-Allow-Credentials'', ''true'')],
       resp_body = Document ''logo.png''\<rparr>,
      Map.empty(''10.0.0.1'' \<mapsto> (1, 900005)))
   \<and> handle bare Map.empty
        (request_of ''POST'' ''/api/orders'' 5\<lparr>req_body := JsonBody 7 (SyntaxError ''bad'')\<rparr>) =
     ([Helmet, Limiter, Morgan, Cors, JsonParser, ErrorHandler],
      \<lparr>resp_status = 500,
       resp_headers = [(''Vary'', ''Origin''), (''Access-Control-Allow-Credentials'', ''true'')],
       resp_body = Json [(''error'', JString ''Something went wrong!''),
                         (''message'', JString ''Internal server error'')]\<rparr>,
      Map.empty(''10.0.0.1'' \<mapsto> (1, 900005)))
   \<and> handle bare Map.empty
        (request_of ''POST'' ''/api/orders'' 5\<lparr>req_body := UrlencodedBody 7 TooManyParameters\<rparr>) =
     ([Helmet, Limiter, Morgan, Cors, JsonParser, UrlencodedParser, ErrorHandler],
      \<lparr>resp_status = 500,
       resp_headers = [(''Vary'', ''Origin''), (''Access-Control-Allow-Credentials'', ''true'')],
       resp_body = Json [(''error'', JString ''Something went wrong!''),
                         (''message'', JString ''Internal server error'')]\<rparr>,
      Map.empty(''10.0.0.1'' \<mapsto> (1, 900005)))
   \<and> handle
        (bare\<lparr>group := (\<lambda>pre q. if pre = ''/api/orders''
            then Answer \<lparr>resp_status = 201, resp_headers = [], resp_body = Text ''created''\<rparr>
            else Pass)\<rparr>)
        Map.empty (request_of ''POST'' ''/api/orders/7'' 5) =
     ([Helmet, Limiter, Morgan, Cors, JsonParser, UrlencodedParser, Static,
       Mount ''/api/orders''],
      \<lparr>resp_status = 201,
       resp_headers = [(''Vary'', ''Origin''), (''Access-Control-Allow-Credentials'', ''true'')],
       resp_body = Text ''created''\<rparr>,
      Map.empty(''10.0.0.1'' \<mapsto> (1, 900005)))
   \<and> handle
        (bare\<lparr>group := (\<lambda>pre q. Raise \<lparr>err_status = 503, err_message = ''no database''\<rparr>)\<rparr>)
        Map.empty (request_of ''GET'' ''/api/sync'' 5) =
     ([Helmet, Limiter, Morgan, Cors, JsonParser, UrlencodedParser, Static,
       Mount ''/api/sync'', ErrorHandler],
      \<lparr>resp_status = 500,
       resp_headers = [(''Vary'', ''Origin''), (''Access-Control-Allow-Credentials'', ''true'')],
       resp_body = Json [(''error'', JString ''Something went wrong!''),
                         (''message'', JString ''Internal server error'')]\<rparr>,
      Map.empty(''10.0.0.1'' \<mapsto> (1, 900005)))
   \<and> handle
        (bare\<lparr>file_state := (\<lambda>f. Unreadable \<lparr>err_status = 404, err_message = ''ENOENT''\<rparr>)\<rparr>)
        Map.empty (request_of ''GET'' ''/launcher'' 5) =
     ([Helmet, Limiter, Morgan, Cors, JsonParser, UrlencodedParser, Static,
       Get ''/launcher'' (SendFile ''launcher.html''), ErrorHandler],
      \<lparr>resp_status = 500,
       resp_headers = [(''Vary'', ''Origin''), (''Access-Control-Allow-Credentials'', ''true'')],
       resp_body = Json [(''error'', JString ''Something went wrong!''),
                         (''message'', JString ''Internal server error'')]\<rparr>,
      Map.empty(''10.0.0.1'' \<mapsto> (1, 900005)))
   \<and> handle bare Map.empty (request_of ''GET'' ''/launcher'' 5) =
     ([Helmet, Limiter, Morgan, Cors, JsonParser, UrlencodedParser, Static,
       Get ''/launcher'' (SendFile ''launcher.html'')],
      \<lparr>resp_status = 200,
       resp_headers = [(''Vary'', ''Origin''), (''Access-Control-Allow-Credentials'', ''true'')],
       resp_body = Document ''launcher.html''\<rparr>,
      Map.empty(''10.0.0.1'' \<mapsto> (1, 900005)))
   \<and> handle bare (Map.empty(''10.0.0.1'' \<mapsto> (100, 900000))) (request_of ''GET'' ''/'' 5) =
     ([Helmet, Limiter],
      \<lparr>resp_status = 429, resp_headers = [],
       resp_body = Text ''Too many requests, please try again later.''\<rparr>,
      Map.empty(''10.0.0.1'' \<mapsto> (101, 900000)))
   \<and> handle bare Map.empty (request_of ''OPTIONS'' ''/api/orders'' 5) =
     ([Helmet, Limiter, Morgan, Cors],
      \<lparr>resp_status = 204,
       resp_headers =
         [(''Vary'', ''Origin''), (''Access-Control-Allow-Credentials'', ''true''),
          (''Access-Control-Allow-Methods'', ''GET,HEAD,PUT,PATCH,POST,DELETE''),
          (''Vary'', ''Access-Control-Request-Headers''), (''Content-Length'', ''0'')],
       resp_body = Empty\<rparr>,
      Map.empty(''10.0.0.1'' \<mapsto> (1, 900005)))"
proof -
  let ?r1 = "request_of ''DELETE'' ''/nowhere'' 5"
  let ?r2 = "request_of ''GET'' ''/logo.png'' 5"
  let ?r3 = "request_of ''POST'' ''/api/orders'' 5\<lparr>req_body := JsonBody 7 (SyntaxError ''bad'')\<rparr>"
  let ?r4 = "request_of ''POST'' ''/api/orders'' 5\<lparr>req_body := UrlencodedBody 7 TooManyParameters\<rparr>"
  let ?r5 = "request_of ''POST'' ''/api/orders/7'' 5"
  let ?r6 = "request_of ''GET'' ''/api/sync'' 5"
  let ?r7 = "request_of ''GET'' ''/launcher'' 5"
  let ?r8 = "request_of ''GET'' ''/'' 5"
  let ?r9 = "request_of ''OPTIONS'' ''/api/orders'' 5"
  let ?full = "Map.empty(''10.0.0.1'' \<mapsto> (100 :: nat, 900000 :: nat))"
  let ?env2 = "bare\<lparr>static_answer := (\<lambda>q. if req_path q = ''/logo.png''
            then Some \<lparr>resp_status = 200, resp_headers = [], resp_body = Document ''logo.png''\<rparr>
            else None)\<rparr>"
  let ?env5 = "bare\<lparr>group := (\<lambda>pre q. if pre = ''/api/orders''
            then Answer \<lparr>resp_status = 201, resp_headers = [], resp_body = Text ''created''\<rparr>
            else Pass)\<rparr>"
  let ?e6 = "\<lparr>err_status = 503, err_message = ''no database''\<rparr>"
  let ?env6 = "bare\<lparr>group := (\<lambda>pre q. Raise ?e6)\<rparr>"
  let ?e7 = "\<lparr>err_status = 404, err_message = ''ENOENT''\<rparr>"
  let ?env7 = "bare\<lparr>file_state := (\<lambda>f. Unreadable ?e7)\<rparr>"
  let ?before = "[Get ''/'' (SendFile ''index.html''), Get ''/start'' (Redirect ''/launcher'')]"
  let ?after = "[Get ''/admin'' (SendFile ''admin/login.html''),
     Get ''/admin/'' (SendFile ''admin/login.html''),
     Get ''/admin/login.html'' (SendFile ''admin/login.html''),
     Get ''/admin/dashboard'' (SendFile ''admin/index.html''),
     Get ''/order-confirmation'' (SendFile ''order-confirmation.html''),
     Get ''/api/health'' Health]"
  have rr1: "reaches_routing Map.empty ?r1"
    by (simp add: reaches_routing_def stage_eval request_of_def)
  have st1: "req_method ?r1 = ''GET'' \<or> req_method ?r1 = ''HEAD'' \<longrightarrow>
             static_answer bare ?r1 = None"
    by (simp add: request_of_def)
  have no1: "\<forall>st \<in> set (mounts @ get_routes). \<not> layer_matches st ?r1"
    by (simp add: mounts_def api_prefixes_def get_routes_def request_of_def match_eval)
  have one: "handle bare Map.empty ?r1 =
     ([Helmet, Limiter, Morgan, Cors, JsonParser, UrlencodedParser, Static, NotFound],
      not_found ?r1 (early_headers bare ?r1), counted Map.empty ?r1)"
    using pipeline_order [of bare Map.empty ?r1,
        THEN conjunct2, THEN conjunct2, THEN conjunct2, THEN conjunct2,
        THEN conjunct2, THEN conjunct2, THEN conjunct2, THEN conjunct2,
        THEN conjunct2, THEN conjunct2, THEN conjunct2, THEN conjunct2,
        THEN conjunct2] rr1 st1 no1 by blast
  have rr2: "reaches_routing Map.empty ?r2"
    by (simp add: reaches_routing_def stage_eval request_of_def)
  have m2: "req_method ?r2 = ''GET'' \<or> req_method ?r2 = ''HEAD''"
    by (simp add: request_of_def)
  have st2: "static_answer ?env2 ?r2 =
               Some \<lparr>resp_status = 200, resp_headers = [], resp_body = Document ''logo.png''\<rparr>"
    by (simp add: request_of_def)
  have "handle ?env2 Map.empty ?r2 =
     ([Helmet, Limiter, Morgan, Cors, JsonParser, UrlencodedParser, Static],
      with_headers (early_headers ?env2 ?r2)
        \<lparr>resp_status = 200, resp_headers = [], resp_body = Document ''logo.png''\<rparr>,
      counted Map.empty ?r2)"
    using pipeline_order [of ?env2 Map.empty ?r2,
        THEN conjunct2, THEN conjunct2, THEN conjunct2, THEN conjunct2,
        THEN conjunct2, THEN conjunct2, THEN conjunct2, THEN conjunct2,
        THEN conjunct2, THEN conjunct2, THEN conjunct1] rr2 m2 st2 by blast
  then have two: "handle ?env2 Map.empty ?r2 =
     ([Helmet, Limiter, Morgan, Cors, JsonParser, UrlencodedParser, Static],
      \<lparr>resp_status = 200,
       resp_headers = [(''Vary'', ''Origin''), (''Access-Control-Allow-Credentials'', ''true'')],
       resp_body = Document ''logo.png''\<rparr>,
      Map.empty(''10.0.0.1'' \<mapsto> (1, 900005)))"
    by (simp add: stage_eval request_of_def bare_def)
  have f3: "forwarded Map.empty ?r3" by (simp add: stage_eval request_of_def)
  have m3: "req_method ?r3 \<noteq> ''OPTIONS''" by (simp add: request_of_def)
  have j3: "json_error ?r3 = Some \<lparr>err_status = 400, err_message = ''bad''\<rparr>"
    by (simp add: stage_eval request_of_def)
  have "handle bare Map.empty ?r3 =
     ([Helmet, Limiter, Morgan, Cors, JsonParser, ErrorHandler],
      error_handler bare (early_headers bare ?r3) \<lparr>err_status = 400, err_message = ''bad''\<rparr>,
      counted Map.empty ?r3)"
    using pipeline_order [of bare Map.empty ?r3 "\<lparr>err_status = 400, err_message = ''bad''\<rparr>",
        THEN conjunct2, THEN conjunct2, THEN conjunct2, THEN conjunct2,
        THEN conjunct2, THEN conjunct2, THEN conjunct1]
      f3 m3 j3 by blast
  then have three: "handle bare Map.empty ?r3 =
     ([Helmet, Limiter, Morgan, Cors, JsonParser, ErrorHandler],
      \<lparr>resp_status = 500,
       resp_headers = [(''Vary'', ''Origin''), (''Access-Control-Allow-Credentials'', ''true'')],
       resp_body = Json [(''error'', JString ''Something went wrong!''),
                         (''message'', JString ''Internal server error'')]\<rparr>,
      Map.empty(''10.0.0.1'' \<mapsto> (1, 900005)))"
    by (simp add: stage_eval request_of_def bare_def)
  have f4: "forwarded Map.empty ?r4" by (simp add: stage_eval request_of_def)
  have m4: "req_method ?r4 \<noteq> ''OPTIONS''" by (simp add: request_of_def)
  have j4: "json_error ?r4 = None" by (simp add: stage_eval request_of_def)
  have u4: "urlencoded_error ?r4 =
              Some \<lparr>err_status = 413, err_message = ''too many parameters''\<rparr>"
    by (simp add: stage_eval request_of_def)
  have "handle bare Map.empty ?r4 =
     ([Helmet, Limiter, Morgan, Cors, JsonParser, UrlencodedParser, ErrorHandler],
      error_handler bare (early_headers bare ?r4)
        \<lparr>err_status = 413, err_message = ''too many parameters''\<rparr>,
      counted Map.empty ?r4)"
    using pipeline_order [of bare Map.empty ?r4
        "\<lparr>err_status = 413, err_message = ''too many parameters''\<rparr>",
        THEN conjunct2, THEN conjunct2, THEN conjunct2, THEN conjunct2,
        THEN conjunct2, THEN conjunct2, THEN conjunct2, THEN conjunct1]
      f4 m4 j4 u4 by blast
  then have four: "handle bare Map.empty ?r4 =
     ([Helmet, Limiter, Morgan, Cors, JsonParser, UrlencodedParser, ErrorHandler],
      \<lparr>resp_status = 500,
       resp_headers = [(''Vary'', ''Origin''), (''Access-Control-Allow-Credentials'', ''true'')],
       resp_body = Json [(''error'', JString ''Something went wrong!''),
                         (''message'', JString ''Internal server error'')]\<rparr>,
      Map.empty(''10.0.0.1'' \<mapsto> (1, 900005)))"
    by (simp add: stage_eval request_of_def bare_def)
  have rr5: "reaches_routing Map.empty ?r5"
    by (simp add: reaches_routing_def stage_eval request_of_def)
  have st5: "req_method ?r5 = ''GET'' \<or> req_method ?r5 = ''HEAD'' \<longrightarrow>
             static_answer ?env5 ?r5 = None"
    by (simp add: request_of_def)
  have p5: "''/api/orders'' \<in> set api_prefixes" by (simp add: api_prefixes_def)
  have mm5: "mount_matches ''/api/orders'' (req_path ?r5)"
    by (simp add: request_of_def match_eval)
  have "handle ?env5 Map.empty ?r5 =
     (case group ?env5 ''/api/orders'' ?r5 of
        Answer resp \<Rightarrow>
          ([Helmet, Limiter, Morgan, Cors, JsonParser, UrlencodedParser, Static,
            Mount ''/api/orders''],
           with_headers (early_headers ?env5 ?r5) resp, counted Map.empty ?r5)
      | Raise e \<Rightarrow>
          ([Helmet, Limiter, Morgan, Cors, JsonParser, UrlencodedParser, Static,
            Mount ''/api/orders'', ErrorHandler],
           error_handler ?env5 (early_headers ?env5 ?r5) e, counted Map.empty ?r5)
      | Pass \<Rightarrow>
          ([Helmet, Limiter, Morgan, Cors, JsonParser, UrlencodedParser, Static,
            Mount ''/api/orders'', NotFound],
           not_found ?r5 (early_headers ?env5 ?r5), counted Map.empty ?r5))"
    using pipeline_order [of ?env5 Map.empty ?r5 _ _ "''/api/orders''",
        THEN conjunct2, THEN conjunct2, THEN conjunct2, THEN conjunct2,
        THEN conjunct2, THEN conjunct2, THEN conjunct2, THEN conjunct2,
        THEN conjunct2, THEN conjunct2, THEN conjunct2, THEN conjunct1] rr5 st5 p5 mm5
    by blast
  then have five: "handle ?env5 Map.empty ?r5 =
     ([Helmet, Limiter, Morgan, Cors, JsonParser, UrlencodedParser, Static,
       Mount ''/api/orders''],
      \<lparr>resp_status = 201,
       resp_headers = [(''Vary'', ''Origin''), (''Access-Control-Allow-Credentials'', ''true'')],
       resp_body = Text ''created''\<rparr>,
      Map.empty(''10.0.0.1'' \<mapsto> (1, 900005)))"
    by (simp add: stage_eval request_of_def bare_def)
  have rr6: "reaches_routing Map.empty ?r6"
    by (simp add: reaches_routing_def stage_eval request_of_def)
  have st6: "req_method ?r6 = ''GET'' \<or> req_method ?r6 = ''HEAD'' \<longrightarrow>
             static_answer ?env6 ?r6 = None"
    by (simp add: request_of_def bare_def)
  have p6: "''/api/sync'' \<in> set api_prefixes" by (simp add: api_prefixes_def)
  have mm6: "mount_matches ''/api/sync'' (req_path ?r6)"
    by (simp add: request_of_def match_eval)
  have "handle ?env6 Map.empty ?r6 =
     (case group ?env6 ''/api/sync'' ?r6 of
        Answer resp \<Rightarrow>
          ([Helmet, Limiter, Morgan, Cors, JsonParser, UrlencodedParser, Static,
            Mount ''/api/sync''],
           with_headers (early_headers ?env6 ?r6) resp, counted Map.empty ?r6)
      | Raise e \<Rightarrow>
          ([Helmet, Limiter, Morgan, Cors, JsonParser, UrlencodedParser, Static,
            Mount ''/api/sync'', ErrorHandler],
           error_handler ?env6 (early_headers ?env6 ?r6) e, counted Map.empty ?r6)
      | Pass \<Rightarrow>
          ([Helmet, Limiter, Morgan, Cors, JsonParser, UrlencodedParser, Static,
            Mount ''/api/sync'', NotFound],
           not_found ?r6 (early_headers ?env6 ?r6), counted Map.empty ?r6))"
    using pipeline_order [of ?env6 Map.empty ?r6 _ _ "''/api/sync''",
        THEN conjunct2, THEN conjunct2, THEN conjunct2, THEN conjunct2,
        THEN conjunct2, THEN conjunct2, THEN conjunct2, THEN conjunct2,
        THEN conjunct2, THEN conjunct2, THEN conjunct2, THEN conjunct1] rr6 st6 p6 mm6
    by blast
  then have six: "handle ?env6 Map.empty ?r6 =
     ([Helmet, Limiter, Morgan, Cors, JsonParser, UrlencodedParser, Static,
       Mount ''/api/sync'', ErrorHandler],
      \<lparr>resp_status = 500,
       resp_headers = [(''Vary'', ''Origin''), (''Access-Control-Allow-Credentials'', ''true'')],
       resp_body = Json [(''error'', JString ''Something went wrong!''),
                         (''message'', JString ''Internal server error'')]\<rparr>,
      Map.empty(''10.0.0.1'' \<mapsto> (1, 900005)))"
    by (simp add: stage_eval request_of_def bare_def)
  have rr7: "reaches_routing Map.empty ?r7"
    by (simp add: reaches_routing_def stage_eval request_of_def)
  have nm7: "\<forall>q \<in> set api_prefixes. \<not> mount_matches q (req_path ?r7)"
    by (simp add: api_prefixes_def request_of_def match_eval)
  have split7: "get_routes = ?before @ Get ''/launcher'' (SendFile ''launcher.html'') # ?after"
    by (simp add: get_routes_def)
  have b7: "\<forall>st \<in> set ?before. \<not> layer_matches st ?r7"
    by (simp add: request_of_def match_eval)
  have l7: "layer_matches (Get ''/launcher'' (SendFile ''launcher.html'')) ?r7"
    by (simp add: request_of_def match_eval)
  have st7: "req_method ?r7 = ''GET'' \<or> req_method ?r7 = ''HEAD'' \<longrightarrow>
             static_answer ?env7 ?r7 = None"
    by (simp add: request_of_def bare_def)
  have run7: "run_handler ?env7 (SendFile ''launcher.html'') ?r7 (early_headers ?env7 ?r7) =
                Raise ?e7"
    by simp
  have "handle ?env7 Map.empty ?r7 =
     ([Helmet, Limiter, Morgan, Cors, JsonParser, UrlencodedParser, Static,
       Get ''/launcher'' (SendFile ''launcher.html''), ErrorHandler],
      error_handler ?env7 (early_headers ?env7 ?r7) ?e7, counted Map.empty ?r7)"
    using pipeline_order [of ?env7 Map.empty ?r7 ?e7 _ _ ?before "''/launcher''"
        "SendFile ''launcher.html''" ?after,
        THEN conjunct2, THEN conjunct2, THEN conjunct2, THEN conjunct2,
        THEN conjunct2, THEN conjunct2, THEN conjunct2, THEN conjunct2,
        THEN conjunct2, THEN conjunct2, THEN conjunct2, THEN conjunct2,
        THEN conjunct1]
      rr7 st7 nm7 split7 b7 l7 run7 by blast
  then have seven: "handle ?env7 Map.empty ?r7 =
     ([Helmet, Limiter, Morgan, Cors, JsonParser, UrlencodedParser, Static,
       Get ''/launcher'' (SendFile ''launcher.html''), ErrorHandler],
      \<lparr>resp_status = 500,
       resp_headers = [(''Vary'', ''Origin''), (''Access-Control-Allow-Credentials'', ''true'')],
       resp_body = Json [(''error'', JString ''Something went wrong!''),
                         (''message'', JString ''Internal server error'')]\<rparr>,
      Map.empty(''10.0.0.1'' \<mapsto> (1, 900005)))"
    by (simp add: stage_eval request_of_def bare_def)
  let ?resp8 = "\<lparr>resp_status = 200,
       resp_headers = [(''Vary'', ''Origin''), (''Access-Control-Allow-Credentials'', ''true'')],
       resp_body = Document ''launcher.html''\<rparr>"
  have st8: "req_method ?r7 = ''GET'' \<or> req_method ?r7 = ''HEAD'' \<longrightarrow>
             static_answer bare ?r7 = None"
    by (simp add: request_of_def bare_def)
  have run8: "run_handler bare (SendFile ''launcher.html'') ?r7 (early_headers bare ?r7) =
                Answer ?resp8"
    by (simp add: stage_eval request_of_def bare_def)
  have "handle bare Map.empty ?r7 =
     ([Helmet, Limiter, Morgan, Cors, JsonParser, UrlencodedParser, Static,
       Get ''/launcher'' (SendFile ''launcher.html'')],
      ?resp8, counted Map.empty ?r7)"
    using pipeline_order [of bare Map.empty ?r7 _ ?resp8 _ ?before "''/launcher''"
        "SendFile ''launcher.html''" ?after,
        THEN conjunct2, THEN conjunct2, THEN conjunct2, THEN conjunct2,
        THEN conjunct2, THEN conjunct2, THEN conjunct2, THEN conjunct2,
        THEN conjunct2, THEN conjunct2, THEN conjunct2, THEN conjunct2,
        THEN conjunct1]
      rr7 st8 nm7 split7 b7 l7 run8 by blast
  then have eight: "handle bare Map.empty ?r7 =
     ([Helmet, Limiter, Morgan, Cors, JsonParser, UrlencodedParser, Static,
       Get ''/launcher'' (SendFile ''launcher.html'')],
      ?resp8, Map.empty(''10.0.0.1'' \<mapsto> (1, 900005)))"
    by (simp add: stage_eval request_of_def)
  have nf9: "\<not> forwarded ?full ?r8" by (simp add: stage_eval request_of_def)
  have "handle bare ?full ?r8 =
     ([Helmet, Limiter], too_many (helmet_headers bare), counted ?full ?r8)"
    using pipeline_order [of bare ?full ?r8,
        THEN conjunct2, THEN conjunct2, THEN conjunct1] nf9 by blast
  then have nine: "handle bare ?full ?r8 =
     ([Helmet, Limiter],
      \<lparr>resp_status = 429, resp_headers = [],
       resp_body = Text ''Too many requests, please try again later.''\<rparr>,
      Map.empty(''10.0.0.1'' \<mapsto> (101, 900000)))"
    by (simp add: stage_eval request_of_def bare_def)
  have f10: "forwarded Map.empty ?r9" by (simp add: stage_eval request_of_def)
  have m10: "req_method ?r9 = ''OPTIONS''" by (simp add: request_of_def)
  have "handle bare Map.empty ?r9 =
          ([Helmet, Limiter, Morgan, Cors],
           \<lparr>resp_status = 204,
            resp_headers = helmet_headers bare @ cors_headers ?r9 @ preflight_headers ?r9,
            resp_body = Empty\<rparr>,
           counted Map.empty ?r9)"
    using pipeline_order [of bare Map.empty ?r9,
        THEN conjunct2, THEN conjunct2, THEN conjunct2, THEN conjunct2,
        THEN conjunct2, THEN conjunct1] f10 m10 by blast
  then have ten: "handle bare Map.empty ?r9 =
     ([Helmet, Limiter, Morgan, Cors],
      \<lparr>resp_status = 204,
       resp_headers =
         [(''Vary'', ''Origin''), (''Access-Control-Allow-Credentials'', ''true''),
          (''Access-Control-Allow-Methods'', ''GET,HEAD,PUT,PATCH,POST,DELETE''),
          (''Vary'', ''Access-Control-Request-Headers''), (''Content-Length'', ''0'')],
       resp_body = Empty\<rparr>,
      Map.empty(''10.0.0.1'' \<mapsto> (1, 900005)))"
    by (simp add: stage_eval request_of_def bare_def)
  from one two three four five six seven eight nine ten show ?thesis
    by (intro conjI)
qed

text \<open>
  C5 as stated fails for the 101st request of a client within its window: the limiter
  answers it, and the logger, the CORS stage and the body decoder never run.
\<close>

theorem pipeline_order_counterexample:
  "fst (handle bare (Map.empty(''10.0.0.1'' \<mapsto> (100, 900000)))
         (request_of ''GET'' ''/'' 5)) = [Helmet, Limiter]"
  by (simp add: run_eval stage_eval)

subsection \<open>C6: the health check\<close>




subsection \<open>C7: the redirect of /start\<close>

text \<open>
  C7, as amended. A GET of \<open>/start\<close> for which the static server has no file, which the
  limiter passes on and whose body decodes, is answered by the route's handler with
  status 302, the Location header \<open>/launcher\<close> (and Vary set to Accept) and the redirect
  notice as body. No GET of \<open>/start\<close> for which the static server has no file is
  answered with a document or a part of one, also not one that is stopped before the
  routes.
\<close>

theorem start_redirects:
  assumes "req_method r = ''GET''" and "req_path r = ''/start''"
    and "static_answer env r = None"
  shows "(forwarded s r \<and> decodes r \<longrightarrow>
            handle env s r =
              ([Helmet, Limiter, Morgan, Cors, JsonParser, UrlencodedParser, Static,
                Get ''/start'' (Redirect ''/launcher'')],
               \<lparr>resp_status = 302,
                resp_headers =
                  helmet_headers env @ cors_headers r @
                  [(''Location'', ''/launcher''), (''Vary'', ''Accept'')],
                resp_body = RedirectNotice ''/launcher''\<rparr>,
               counted s r))
       \<and> (\<forall>f. resp_body (fst (snd (handle env s r))) \<noteq> Document f \<and>
                resp_body (fst (snd (handle env s r))) \<noteq> PartialDocument f)"
proof -
  have first: "forwarded s r \<and> decodes r \<longrightarrow>
            handle env s r =
              ([Helmet, Limiter, Morgan, Cors, JsonParser, UrlencodedParser, Static,
                Get ''/start'' (Redirect ''/launcher'')],
               \<lparr>resp_status = 302,
                resp_headers =
                  helmet_headers env @ cors_headers r @
                  [(''Location'', ''/launcher''), (''Vary'', ''Accept'')],
                resp_body = RedirectNotice ''/launcher''\<rparr>,
               counted s r)"
    using start_once [OF _ assms(3,1,2), of s] assms(1) by (simp add: reaches_routing_def)
  have never: "resp_body (fst (snd (handle env s r))) \<noteq> Document f \<and>
               resp_body (fst (snd (handle env s r))) \<noteq> PartialDocument f" for f
  proof (cases "reaches_routing s r")
    case True
    then show ?thesis by (simp add: start_once [OF _ assms(3,1,2)])
  next
    case False
    with stopped_early [OF False, of env] assms(1) show ?thesis
      by (auto simp: too_many_def error_handler_def)
  qed
  from first never show ?thesis by blast
qed

text \<open>The theorem at a first request of a client.\<close>

theorem start_redirects_witness:
  "handle bare Map.empty (request_of ''GET'' ''/start'' 5) =
     ([Helmet, Limiter, Morgan, Cors, JsonParser, UrlencodedParser, Static,
       Get ''/start'' (Redirect ''/launcher'')],
      \<lparr>resp_status = 302,
       resp_headers =
         [(''Vary'', ''Origin''), (''Access-Control-Allow-Credentials'', ''true''),
          (''Location'', ''/launcher''), (''Vary'', ''Accept'')],
       resp_body = RedirectNotice ''/launcher''\<rparr>,
      Map.empty(''10.0.0.1'' \<mapsto> (1, 900005)))"
proof -
  let ?r = "request_of ''GET'' ''/start'' 5"
  have f: "forwarded Map.empty ?r" by (simp add: stage_eval request_of_def)
  have d: "decodes ?r" by (simp add: stage_eval request_of_def)
  have m: "req_method ?r = ''GET''" by (simp add: request_of_def)
  have p: "req_path ?r = ''/start''" by (simp add: request_of_def)
  have n: "static_answer bare ?r = None" by (simp add: bare_def)
  show ?thesis
    using start_redirects [OF m p n, of Map.empty] f d
    by (simp add: stage_eval request_of_def bare_def)
qed

text \<open>
  C7 as stated fails for the 101st GET of \<open>/start\<close> of a client within its window: the
  limiter answers it with status 429, and there is no redirect.
\<close>

theorem start_limited_counterexample:
  "handle bare (Map.empty(''10.0.0.1'' \<mapsto> (100, 900000))) (request_of ''GET'' ''/start'' 5) =
     ([Helmet, Limiter],
      \<lparr>resp_status = 429, resp_headers = [],
       resp_body = Text ''Too many requests, please try again later.''\<rparr>,
      Map.empty(''10.0.0.1'' \<mapsto> (101, 900000)))"
  by (simp add: run_eval stage_eval)

subsection \<open>C8: the CORS policy\<close>

text \<open>
  C8, as amended. Take a request with an Origin header that the limiter passes on, and
  let neither helmet nor the answer of the static server or of a route group to this
  request set Access-Control-Allow-Origin. Then the response carries
  Access-Control-Allow-Origin, echoing the request's origin, if and only if the origin
  equals one of the four entries of the allow-list; for any other origin the response
  carries no such header. Access-Control-Allow-Credentials: \<open>true\<close> is on the
  response whatever the origin is. A request other than OPTIONS goes on to the body
  decoder either way; an OPTIONS request is answered by the CORS stage itself, with
  status 204.
\<close>

theorem cors_policy:
  assumes "origin r = Some og" and "forwarded s r"
    and "''Access-Control-Allow-Origin'' \<notin> fst ` set (helmet_headers env)"
    and "\<forall>resp. static_answer env r = Some resp \<longrightarrow>
           ''Access-Control-Allow-Origin'' \<notin> fst ` set (resp_headers resp)"
    and "\<forall>pre resp. group env pre r = Answer resp \<longrightarrow>
           ''Access-Control-Allow-Origin'' \<notin> fst ` set (resp_headers resp)"
  shows "(((''Access-Control-Allow-Origin'', v) \<in>
             set (resp_headers (fst (snd (handle env s r))))) \<longleftrightarrow>
            v = og \<and>
            og \<in> {''http://localhost:3000'', ''http://127.0.0.1:3000'',
                   ''http://localhost:8000'', ''http://127.0.0.1:8000''})
       \<and> (''Access-Control-Allow-Credentials'', ''true'') \<in>
             set (resp_headers (fst (snd (handle env s r))))
       \<and> (req_method r \<noteq> ''OPTIONS'' \<longrightarrow>
            take 5 (fst (handle env s r)) = [Helmet, Limiter, Morgan, Cors, JsonParser])
       \<and> (req_method r = ''OPTIONS'' \<longrightarrow>
            fst (handle env s r) = [Helmet, Limiter, Morgan, Cors] \<and>
            resp_status (fst (snd (handle env s r))) = 204)"
proof -
  let ?k = "''Access-Control-Allow-Origin''"
  have set_by_cors: "((?k, v) \<in> set (cors_headers r)) \<longleftrightarrow>
            v = og \<and>
            og \<in> {''http://localhost:3000'', ''http://127.0.0.1:3000'',
                   ''http://localhost:8000'', ''http://127.0.0.1:8000''}"
    using assms(1) by (auto simp: cors_headers_def allowed_origins_def)
  have sent: "set (cors_headers r) \<subseteq> set (resp_headers (fst (snd (handle env s r))))"
  proof (cases "req_method r = ''OPTIONS''")
    case True
    with assms(2) show ?thesis by (auto simp: handle_preflight)
  next
    case False
    have "set (helmet_headers env @ cors_headers r) \<subseteq>
          set (resp_headers (fst (snd (dispatch env
             (JsonParser # UrlencodedParser # Static # mounts @ get_routes @
                [ErrorHandler, NotFound])
             r (counted s r) (helmet_headers env @ cors_headers r) None))))"
      by (rule dispatch_keeps_headers)
    with False assms(2) show ?thesis
      by (simp add: handle_forwarded d_cors resp_visit)
  qed
  have only: "(?k, v) \<in> set (cors_headers r)"
    if "(?k, v) \<in> set (resp_headers (fst (snd (handle env s r))))"
  proof -
    have "(?k, v) \<notin> set (preflight_headers r)"
      by (auto simp: preflight_headers_def split: option.splits if_splits)
    moreover have "(?k, v) \<notin> set (helmet_headers env)"
      using assms(3) by force
    moreover have "\<not> (\<exists>resp. static_answer env r = Some resp \<and> (?k, v) \<in> set (resp_headers resp))"
      using assms(4) by force
    moreover have "\<not> (\<exists>pre resp. group env pre r = Answer resp \<and> (?k, v) \<in> set (resp_headers resp))"
      using assms(5) by force
    ultimately show ?thesis
      using dispatch_headers_from [of ?k v env app r s "[]" None] that
      by (simp add: handle_def) blast
  qed
  have acao: "((?k, v) \<in> set (resp_headers (fst (snd (handle env s r))))) \<longleftrightarrow>
            v = og \<and>
            og \<in> {''http://localhost:3000'', ''http://127.0.0.1:3000'',
                   ''http://localhost:8000'', ''http://127.0.0.1:8000''}"
    using only sent set_by_cors by blast
  have acac: "(''Access-Control-Allow-Credentials'', ''true'') \<in>
             set (resp_headers (fst (snd (handle env s r))))"
    using sent by (auto simp: cors_headers_def)
  have onward: "req_method r \<noteq> ''OPTIONS'' \<longrightarrow>
            take 5 (fst (handle env s r)) = [Helmet, Limiter, Morgan, Cors, JsonParser]"
    using assms(2) handle_decoding by blast
  have preflight: "req_method r = ''OPTIONS'' \<longrightarrow>
            fst (handle env s r) = [Helmet, Limiter, Morgan, Cors] \<and>
            resp_status (fst (snd (handle env s r))) = 204"
    using assms(2) by (simp add: handle_preflight)
  from acao acac onward preflight show ?thesis by blast
qed

text \<open>
  The theorem at a request from an origin of the allow-list, and at one from another
  origin.
\<close>

theorem cors_policy_witness:
  "(''Access-Control-Allow-Origin'', ''http://localhost:3000'') \<in>
     set (resp_headers (fst (snd (handle bare Map.empty
       (request_of ''GET'' ''/api/health'' 5
          \<lparr>req_headers := [(''origin'', ''http://localhost:3000'')]\<rparr>)))))
   \<and> (''Access-Control-Allow-Origin'', ''http://evil.example'') \<notin>
     set (resp_headers (fst (snd (handle bare Map.empty
       (request_of ''GET'' ''/api/health'' 5
          \<lparr>req_headers := [(''origin'', ''http://evil.example'')]\<rparr>)))))"
proof -
  let ?r = "request_of ''GET'' ''/api/health'' 5
          \<lparr>req_headers := [(''origin'', ''http://localhost:3000'')]\<rparr>"
  let ?q = "request_of ''GET'' ''/api/health'' 5
          \<lparr>req_headers := [(''origin'', ''http://evil.example'')]\<rparr>"
  have og: "origin ?r = Some ''http://localhost:3000''"
    by (simp add: origin_def request_of_def)
  have og': "origin ?q = Some ''http://evil.example''"
    by (simp add: origin_def request_of_def)
  have f: "forwarded Map.empty ?r" by (simp add: stage_eval request_of_def)
  have f': "forwarded Map.empty ?q" by (simp add: stage_eval request_of_def)
  have h: "''Access-Control-Allow-Origin'' \<notin> fst ` set (helmet_headers bare)"
    by (simp add: bare_def)
  have st: "\<forall>resp. static_answer bare x = Some resp \<longrightarrow>
           ''Access-Control-Allow-Origin'' \<notin> fst ` set (resp_headers resp)" for x
    by (simp add: bare_def)
  have gr: "\<forall>pre resp. group bare pre x = Answer resp \<longrightarrow>
           ''Access-Control-Allow-Origin'' \<notin> fst ` set (resp_headers resp)" for x
    by (simp add: bare_def)
  from cors_policy [OF og f h st gr, of "''http://localhost:3000''"]
    cors_policy [OF og' f' h st gr, of "''http://evil.example''"]
  show ?thesis by simp
qed

text \<open>
  C8 as stated fails for an origin that is not on the list: Access-Control-Allow-Origin
  is left out, but Access-Control-Allow-Credentials is on the response all the same.
\<close>

theorem cors_policy_counterexample:
  "resp_headers (fst (snd (handle bare Map.empty
     (request_of ''GET'' ''/api/health'' 5
        \<lparr>req_headers := [(''origin'', ''http://evil.example'')]\<rparr>)))) =
   [(''Vary'', ''Origin''), (''Access-Control-Allow-Credentials'', ''true'')]"
  by (simp add: run_eval stage_eval match_eval)

subsection \<open>C9: the admin dashboard\<close>

text \<open>
  C9, as amended. A GET of \<open>/admin/dashboard\<close> for which the static server has no file,
  which the limiter passes on, whose body decodes and which carries no conditional and no
  Range header, is answered with status 200 and the admin dashboard document when that
  document can be read, whatever other headers the request carries, so also when it
  carries no credentials. Whatever the headers of a GET of \<open>/admin/dashboard\<close> for which
  the static server has no file, its status is one of 200, 206, 304, 404, 429 and 500:
  neither 401 nor 403 is produced.
\<close>

theorem admin_dashboard_open:
  assumes "req_method r = ''GET''" and "req_path r = ''/admin/dashboard''"
    and "static_answer env r = None"
  shows "(forwarded s r \<and> decodes r \<and> file_state env ''admin/index.html'' = Readable \<and>
          plain r \<longrightarrow>
            handle env s r =
              ([Helmet, Limiter, Morgan, Cors, JsonParser, UrlencodedParser, Static,
                Get ''/admin/dashboard'' (SendFile ''admin/index.html'')],
               \<lparr>resp_status = 200,
                resp_headers = helmet_headers env @ cors_headers r,
                resp_body = Document ''admin/index.html''\<rparr>,
               counted s r))
       \<and> resp_status (fst (snd (handle env s r))) \<in> {200, 206, 304, 404, 429, 500}"
proof -
  note routed = dashboard_once [OF _ assms(3,1,2), of s]
  have first: "forwarded s r \<and> decodes r \<and> file_state env ''admin/index.html'' = Readable \<and>
          plain r \<longrightarrow>
            handle env s r =
              ([Helmet, Limiter, Morgan, Cors, JsonParser, UrlencodedParser, Static,
                Get ''/admin/dashboard'' (SendFile ''admin/index.html'')],
               \<lparr>resp_status = 200,
                resp_headers = helmet_headers env @ cors_headers r,
                resp_body = Document ''admin/index.html''\<rparr>,
               counted s r)"
    using routed assms(1) by (simp add: reaches_routing_def early_headers_def)
  have statuses: "resp_status (fst (snd (handle env s r))) \<in> {200, 206, 304, 404, 429, 500}"
  proof (cases "reaches_routing s r")
    case True
    show ?thesis
    proof (cases "run_handler env (SendFile ''admin/index.html'') r (early_headers env r)")
      case Pass
      with routed [OF True] show ?thesis by (simp add: not_found_def)
    next
      case (Answer resp)
      with routed [OF True] sendfile_status [OF Answer] show ?thesis by auto
    next
      case (Raise e)
      with routed [OF True] show ?thesis by (simp add: error_handler_def)
    qed
  next
    case False
    with stopped_early [OF False, of env] assms(1) show ?thesis
      by (auto simp: too_many_def error_handler_def)
  qed
  from first statuses show ?thesis by blast
qed

text \<open>The theorem at a request without any header.\<close>

theorem admin_dashboard_open_witness:
  "handle bare Map.empty (request_of ''GET'' ''/admin/dashboard'' 5) =
     ([Helmet, Limiter, Morgan, Cors, JsonParser, UrlencodedParser, Static,
       Get ''/admin/dashboard'' (SendFile ''admin/index.html'')],
      \<lparr>resp_status = 200,
       resp_headers = [(''Vary'', ''Origin''), (''Access-Control-Allow-Credentials'', ''true'')],
       resp_body = Document ''admin/index.html''\<rparr>,
      Map.empty(''10.0.0.1'' \<mapsto> (1, 900005)))"
proof -
  let ?r = "request_of ''GET'' ''/admin/dashboard'' 5"
  have f: "forwarded Map.empty ?r" by (simp add: stage_eval request_of_def)
  have d: "decodes ?r" by (simp add: stage_eval request_of_def)
  have m: "req_method ?r = ''GET''" by (simp add: request_of_def)
  have p: "req_path ?r = ''/admin/dashboard''" by (simp add: request_of_def)
  have n: "static_answer bare ?r = None" by (simp add: bare_def)
  have e: "file_state bare ''admin/index.html'' = Readable" by (simp add: bare_def)
  have pl: "plain ?r" by (simp add: plain_def request_of_def)
  show ?thesis
    using admin_dashboard_open [OF m p n, of Map.empty] f d e pl
    by (simp add: stage_eval request_of_def bare_def)
qed

text \<open>
  C9 as stated fails for the 101st GET of \<open>/admin/dashboard\<close> of a client within its
  window, credentials or not: the limiter answers it with status 429.
\<close>

theorem admin_dashboard_limited_counterexample:
  "handle bare (Map.empty(''10.0.0.1'' \<mapsto> (100, 900000)))
     (request_of ''GET'' ''/admin/dashboard'' 5) =
     ([Helmet, Limiter],
      \<lparr>resp_status = 429, resp_headers = [],
       resp_body = Text ''Too many requests, please try again later.''\<rparr>,
      Map.empty(''10.0.0.1'' \<mapsto> (101, 900000)))"
  by (simp add: run_eval stage_eval)

subsection \<open>C10: the page routes and other methods\<close>

text \<open>
  C10, as amended. A request to one of the eight page paths with a method other than
  GET, HEAD and OPTIONS, passed on by the limiter and with a body that decodes, matches
  none of the routes and is answered by the 404 handler with the 404 JSON body. (The
  static server passes on every request that is not a GET or HEAD, and no page path lies
  under a mounted prefix.)
\<close>

theorem page_routes_other_methods:
  assumes "forwarded s r" and "decodes r"
    and "req_path r \<in> set page_paths"
    and "req_method r \<noteq> ''GET''" and "req_method r \<noteq> ''HEAD''"
    and "req_method r \<noteq> ''OPTIONS''"
  shows "handle env s r =
           ([Helmet, Limiter, Morgan, Cors, JsonParser, UrlencodedParser, Static, NotFound],
            \<lparr>resp_status = 404, resp_headers = helmet_headers env @ cors_headers r,
             resp_body = Json
               [(''error'', JString ''Route not found''),
                (''message'', JString (''Cannot '' @ req_method r @ '' '' @ req_path r))]\<rparr>,
            counted s r)"
proof -
  have rr: "reaches_routing s r" using assms by (simp add: reaches_routing_def)
  have st: "req_method r = ''GET'' \<or> req_method r = ''HEAD'' \<longrightarrow> static_answer env r = None"
    using assms by simp
  have mt: "\<forall>pre \<in> set api_prefixes. \<not> mount_matches pre (req_path r)"
    using assms(3) page_not_api by blast
  have gt: "\<forall>st \<in> set get_routes. \<not> layer_matches st r"
    using assms(4,5) by (simp add: get_routes_def)
  show ?thesis
    unfolding unmatched [OF rr st mt gt]
    by (simp add: not_found_def early_headers_def pipeline_stages_def)
qed

text \<open>The theorem at \<open>POST /launcher\<close>.\<close>

theorem page_routes_other_methods_witness:
  "handle bare Map.empty (request_of ''POST'' ''/launcher'' 5) =
     ([Helmet, Limiter, Morgan, Cors, JsonParser, UrlencodedParser, Static, NotFound],
      \<lparr>resp_status = 404,
       resp_headers = [(''Vary'', ''Origin''), (''Access-Control-Allow-Credentials'', ''true'')],
       resp_body = Json
         [(''error'', JString ''Route not found''),
          (''message'', JString ''Cannot POST /launcher'')]\<rparr>,
      Map.empty(''10.0.0.1'' \<mapsto> (1, 900005)))"
proof -
  let ?r = "request_of ''POST'' ''/launcher'' 5"
  have f: "forwarded Map.empty ?r" by (simp add: stage_eval request_of_def)
  have d: "decodes ?r" by (simp add: stage_eval request_of_def)
  have p: "req_path ?r \<in> set page_paths" by (simp add: request_of_def page_paths_def)
  have m1: "req_method ?r \<noteq> ''GET''" by (simp add: request_of_def)
  have m2: "req_method ?r \<noteq> ''HEAD''" by (simp add: request_of_def)
  have m3: "req_method ?r \<noteq> ''OPTIONS''" by (simp add: request_of_def)
  show ?thesis
    using page_routes_other_methods [OF f d p m1 m2 m3, of bare]
    by (simp add: stage_eval request_of_def bare_def pipeline_stages_def)
qed

text \<open>
  C10 as stated fails for OPTIONS: the CORS stage answers \<open>OPTIONS /launcher\<close> with
  status 204, and the 404 handler is not reached.
\<close>

theorem page_routes_options_counterexample:
  "handle bare Map.empty (request_of ''OPTIONS'' ''/launcher'' 5) =
     ([Helmet, Limiter, Morgan, Cors],
      \<lparr>resp_status = 204,
       resp_headers =
         [(''Vary'', ''Origin''), (''Access-Control-Allow-Credentials'', ''true''),
          (''Access-Control-Allow-Methods'', ''GET,HEAD,PUT,PATCH,POST,DELETE''),
          (''Vary'', ''Access-Control-Request-Headers''), (''Content-Length'', ''0'')],
       resp_body = Empty\<rparr>,
      Map.empty(''10.0.0.1'' \<mapsto> (1, 900005)))"
  by (simp add: run_eval stage_eval)

end
